theory Spec2Isabelle
  imports Main "HOL-Library.Sublist"
begin

section \<open>Python strings and paths\<close>

text \<open>
  Strings are byte lists; the loader only compares, splits and concatenates them.
  \<open>str.startswith\<close>, \<open>str.endswith\<close> and the operator \<open>in\<close> on strings are the
  prefix, suffix and contiguous-sublist relations.
\<close>

definition startswith :: "string \<Rightarrow> string \<Rightarrow> bool" where
  "startswith s p = prefix p s"

definition endswith :: "string \<Rightarrow> string \<Rightarrow> bool" where
  "endswith s x = suffix x s"

definition str_in :: "string \<Rightarrow> string \<Rightarrow> bool" where
  "str_in p s = sublist p s"

text \<open>\<open>s.split(sep)\<close> for a one-character separator: never empty, keeps empty segments.\<close>

fun split_sep :: "char \<Rightarrow> string \<Rightarrow> string list" where
  "split_sep c [] = [[]]"
| "split_sep c (x # xs) =
     (if x = c then [] # split_sep c xs
      else (case split_sep c xs of [] \<Rightarrow> [[x]] | p # ps \<Rightarrow> (x # p) # ps))"

text \<open>\<open>sep.join(parts)\<close>.\<close>

fun join_sep :: "string \<Rightarrow> string list \<Rightarrow> string" where
  "join_sep sep [] = []"
| "join_sep sep [p] = p"
| "join_sep sep (p # q # ps) = p @ sep @ join_sep sep (q # ps)"

definition is_digit_char :: "char \<Rightarrow> bool" where
  "is_digit_char c = (c \<in> set ''0123456789'')"

text \<open>
  \<open>str.isdigit()\<close>: at least one character and all of them digits. Directory and
  key names are taken to be ASCII, where the digits are \<open>0\<close> to \<open>9\<close>.
\<close>

definition isdigit :: "string \<Rightarrow> bool" where
  "isdigit s = (s \<noteq> [] \<and> list_all is_digit_char s)"

text \<open>\<open>os.path.join(a, b)\<close> on POSIX, for two components.\<close>

definition path_join :: "string \<Rightarrow> string \<Rightarrow> string" where
  "path_join a b =
     (if startswith b ''/'' then b
      else if a = [] \<or> endswith a ''/'' then a @ b
      else a @ ''/'' @ b)"

section \<open>Values, exceptions, console output\<close>

text \<open>
  Cell values of a table row as pandas hands them to the loader. A float is carried as
  mantissa and binary exponent; the loader never computes with it.
\<close>

datatype cell = PyNone | PyBool bool | PyInt int | PyFloat int int | PyStr string

datatype exn =
    OSError string
  | ClientError string
  | ReadError string
  | GeometryError string
  | DatabaseError string
  | UnboundLocalError string
  | TypeError string
  | KeyError string

text \<open>One constructor for each \<open>print\<close> of the loader, with the values it formats.\<close>

datatype msg =
    Found_catchments nat
  | Processing_catchment nat nat string
  | Skipping_catchment string
  | Error_processing_catchment string exn
  | Cleaning_up string
  | Loading_catchment_geometry
  | No_geometry_files_found
  | Error_processing_geometry_file string exn
  | Loading_hydrotables
  | No_hydrotable_files_found
  | Error_processing_hydrotable string exn
  | Loading_REM_rasters
  | No_REM_raster_files_found
  | Loading_catchment_rasters
  | No_catchment_raster_files_found
  | Error_processing_rasters exn
  | Loading_NWM_features
  | Dropped_duplicate_NWM_features nat

section \<open>The database\<close>

record catchment_row =
  c_catchment_id :: string
  c_hand_version_id :: string
  c_geometry :: string

record hydro_row =
  h_catchment_id :: string
  h_hand_version_id :: string
  h_params :: "(string \<times> cell) list"

record rem_row =
  r_rem_raster_id :: string
  r_catchment_id :: string
  r_hand_version_id :: string
  r_raster_path :: string

record craster_row =
  cr_catchment_raster_id :: string
  cr_rem_raster_id :: string
  cr_raster_path :: string

record nwm_row =
  n_nwm_feature_id :: cell
  n_nwm_version_id :: cell
  n_geometry :: string
  n_params :: "(string \<times> cell) list"

record db =
  Hand_Versions :: "string list"
  Catchments :: "catchment_row list"
  Hydrotables :: "hydro_row list"
  HAND_REM_Rasters :: "rem_row list"
  HAND_Catchment_Rasters :: "craster_row list"
  NWM_Features :: "nwm_row list"

text \<open>The SQL statements the loader sends, one constructor per statement text.\<close>

datatype stmt =
    Insert_Catchments catchment_row
  | Insert_Hydrotables hydro_row
  | Insert_HAND_REM_Rasters rem_row
  | Insert_HAND_Catchment_Rasters craster_row
  | Insert_NWM_Features_on_conflict_do_nothing nwm_row
  | Delete_Hydrotables string string
  | Delete_HAND_REM_Rasters string string
  | Delete_Catchments string string

definition nwm_conflict :: "nwm_row \<Rightarrow> nwm_row \<Rightarrow> bool" where
  "nwm_conflict r r' =
     (n_nwm_feature_id r' = n_nwm_feature_id r \<and> n_nwm_version_id r' = n_nwm_version_id r)"

text \<open>
  What an accepted statement does to the tables, and its \<open>rowcount\<close>. A delete
  removes the rows its \<open>WHERE\<close> clause names and nothing else; rules that a schema may
  attach to a table are not part of the loader.
  \<open>ON CONFLICT (nwm_feature_id, nwm_version_id) DO NOTHING\<close> leaves the table alone and
  affects no row when a row with the same key pair is present.
\<close>

fun apply_stmt :: "stmt \<Rightarrow> db \<Rightarrow> nat \<times> db" where
  "apply_stmt (Insert_Catchments r) d = (1, d\<lparr>Catchments := Catchments d @ [r]\<rparr>)"
| "apply_stmt (Insert_Hydrotables r) d = (1, d\<lparr>Hydrotables := Hydrotables d @ [r]\<rparr>)"
| "apply_stmt (Insert_HAND_REM_Rasters r) d =
     (1, d\<lparr>HAND_REM_Rasters := HAND_REM_Rasters d @ [r]\<rparr>)"
| "apply_stmt (Insert_HAND_Catchment_Rasters r) d =
     (1, d\<lparr>HAND_Catchment_Rasters := HAND_Catchment_Rasters d @ [r]\<rparr>)"
| "apply_stmt (Insert_NWM_Features_on_conflict_do_nothing r) d =
     (if list_ex (nwm_conflict r) (NWM_Features d) then (0, d)
      else (1, d\<lparr>NWM_Features := NWM_Features d @ [r]\<rparr>))"
| "apply_stmt (Delete_Hydrotables cid hv) d =
     (length (filter (\<lambda>r. h_catchment_id r = cid \<and> h_hand_version_id r = hv) (Hydrotables d)),
      d\<lparr>Hydrotables :=
          filter (\<lambda>r. \<not> (h_catchment_id r = cid \<and> h_hand_version_id r = hv)) (Hydrotables d)\<rparr>)"
| "apply_stmt (Delete_HAND_REM_Rasters cid hv) d =
     (length (filter (\<lambda>r. r_catchment_id r = cid \<and> r_hand_version_id r = hv)
        (HAND_REM_Rasters d)),
      d\<lparr>HAND_REM_Rasters :=
          filter (\<lambda>r. \<not> (r_catchment_id r = cid \<and> r_hand_version_id r = hv))
            (HAND_REM_Rasters d)\<rparr>)"
| "apply_stmt (Delete_Catchments cid hv) d =
     (length (filter (\<lambda>r. c_catchment_id r = cid \<and> c_hand_version_id r = hv) (Catchments d)),
      d\<lparr>Catchments :=
          filter (\<lambda>r. \<not> (c_catchment_id r = cid \<and> c_hand_version_id r = hv)) (Catchments d)\<rparr>)"

section \<open>The collaborators\<close>

text \<open>
  A vector file read by \<open>gpd.read_file\<close> is a list of features; \<open>gdf.empty\<close> is the
  empty list. Geometries are values of a type \<open>'g\<close> of the geometry library.
\<close>

record 'g feature =
  f_attrs :: "(string \<times> cell) list"
  f_geometry :: "'g"

text \<open>
  Everything outside the loader: the local file system, the object store, the file
  readers, the geometry library, \<open>uuid.uuid5\<close> (rendered by \<open>str\<close>) and the database's
  decision to accept or reject a statement in a given state (its schema and constraints
  are not part of the loader). A read is keyed by the location it was asked for; for a
  remote file the download comes first and is a separate point of failure.
\<close>

record 'g env =
  e_listdir :: "string \<Rightarrow> exn + string list"
  e_isdir :: "string \<Rightarrow> bool"
  e_list_objects_v2 :: "string \<Rightarrow> string \<Rightarrow> exn + string list"
  e_download_file :: "string \<Rightarrow> string \<Rightarrow> exn option"
  e_read_file :: "string \<Rightarrow> exn + 'g feature list"
  e_read_csv :: "string \<Rightarrow> exn + (string \<times> cell) list list"
  e_union_all :: "'g feature list \<Rightarrow> exn + 'g"
  e_union :: "'g \<Rightarrow> 'g \<Rightarrow> exn + 'g"
  e_wkt :: "'g \<Rightarrow> string"
  e_uuid5 :: "string \<Rightarrow> string \<Rightarrow> string"
  e_accepts :: "db \<Rightarrow> stmt \<Rightarrow> bool"

record loader =
  hand_version_id :: string
  nwm_version_id :: cell

text \<open>\<open>conn.execute\<close>: a rejected statement raises, an accepted one takes effect.\<close>

definition execute :: "'g env \<Rightarrow> stmt \<Rightarrow> db \<Rightarrow> exn + (nat \<times> db)" where
  "execute env st d =
     (if e_accepts env d st then Inr (apply_stmt st d)
      else Inl (DatabaseError ''statement rejected''))"

section \<open>Storage access\<close>

definition is_s3_path :: "string \<Rightarrow> bool" where
  "is_s3_path path = startswith path ''s3://''"

text \<open>
  \<open>urlparse\<close> on a URI that starts with \<open>s3://\<close>: the bucket runs to the first of
  \<open>/ ? #\<close>, the path to the first of \<open>? #\<close>; leading slashes of the path are stripped.
\<close>

definition parse_s3_path :: "string \<Rightarrow> string \<times> string" where
  "parse_s3_path s3_uri =
     (let rest = drop 5 s3_uri;
          netloc = takeWhile (\<lambda>c. c \<notin> set ''/?#'') rest;
          after = dropWhile (\<lambda>c. c \<notin> set ''/?#'') rest;
          path = takeWhile (\<lambda>c. c \<notin> set ''?#'') after
      in (netloc, dropWhile (\<lambda>c. c = CHR ''/'') path))"

definition list_s3_objects :: "'g env \<Rightarrow> string \<Rightarrow> exn + string list" where
  "list_s3_objects env s3_prefix =
     (case parse_s3_path s3_prefix of (bucket, pref) \<Rightarrow> e_list_objects_v2 env bucket pref)"

definition download_s3_file :: "'g env \<Rightarrow> string \<Rightarrow> exn option" where
  "download_s3_file env s3_uri =
     (case parse_s3_path s3_uri of (bucket, key) \<Rightarrow> e_download_file env bucket key)"

text \<open>\<open>uuid.NAMESPACE_DNS\<close>, a constant of the library.\<close>

definition NAMESPACE_DNS :: string where
  "NAMESPACE_DNS = ''6ba7b810-9dad-11d1-80b4-00c04fd430c8''"

definition generate_deterministic_uuid :: "loader \<Rightarrow> 'g env \<Rightarrow> string \<Rightarrow> string" where
  "generate_deterministic_uuid self env input_string = e_uuid5 env NAMESPACE_DNS input_string"

text \<open>\<open>_generate_uuid\<close>, the method the load path calls.\<close>

definition generate_uuid :: "loader \<Rightarrow> 'g env \<Rightarrow> string \<Rightarrow> string" where
  "generate_uuid self env input_str = e_uuid5 env NAMESPACE_DNS input_str"

section \<open>Catchment unit discovery\<close>

text \<open>
  The inner loop of the remote branch for one object key: the indices range over
  \<open>parts[:-2]\<close>, and each hit contributes the key's first \<open>i + 3\<close> segments.
\<close>

definition huc_branch_at :: "string list \<Rightarrow> nat \<Rightarrow> bool" where
  "huc_branch_at parts i =
     (isdigit (parts ! i) \<and> length (parts ! i) = 8 \<and> i + 1 < length parts
      \<and> parts ! (i + 1) = ''branches'')"

definition key_catchment_paths :: "string \<Rightarrow> string list" where
  "key_catchment_paths obj =
     (let parts = split_sep CHR ''/'' obj
      in filter (\<lambda>p. p \<noteq> [])
           (map (\<lambda>i. join_sep ''/'' (take (i + 3) parts))
              (filter (huc_branch_at parts) [0 ..< length parts - 2])))"

text \<open>
  The local branch: the directories two levels under each 8-digit directory that has a
  \<open>branches\<close> directory. A failing \<open>os.listdir\<close> raises out of the function.
\<close>

fun branch_dirs :: "'g env \<Rightarrow> string \<Rightarrow> string list \<Rightarrow> exn + string list" where
  "branch_dirs env base_dir [] = Inr []"
| "branch_dirs env base_dir (d # ds) =
     (let huc_path = path_join base_dir d;
          branches_path = path_join huc_path ''branches''
      in if e_isdir env huc_path \<and> isdigit d \<and> length d = 8 \<and> e_isdir env branches_path
         then (case e_listdir env branches_path of
                 Inl e \<Rightarrow> Inl e
               | Inr cds \<Rightarrow>
                   (case branch_dirs env base_dir ds of
                      Inl e \<Rightarrow> Inl e
                    | Inr rest \<Rightarrow>
                        Inr (map (path_join branches_path)
                               (filter (\<lambda>cd. e_isdir env (path_join branches_path cd)) cds)
                             @ rest)))
         else branch_dirs env base_dir ds)"

text \<open>
  The remote branch collects the paths in a Python \<open>set\<close>, whose iteration order is
  not fixed; here the units come in order of first occurrence, and every statement about
  the batch below holds for any list of units.
\<close>

definition get_catchment_dirs :: "'g env \<Rightarrow> string \<Rightarrow> exn + string list" where
  "get_catchment_dirs env base_dir =
     (if is_s3_path base_dir then
        (case list_s3_objects env base_dir of
           Inl e \<Rightarrow> Inl e
         | Inr objects \<Rightarrow>
             Inr (map (\<lambda>d. ''s3://'' @ fst (parse_s3_path base_dir) @ ''/'' @ d)
                    (remdups (concat (map key_catchment_paths objects)))))
      else
        (case e_listdir env base_dir of
           Inl e \<Rightarrow> Inl e
         | Inr ds \<Rightarrow> branch_dirs env base_dir ds))"

definition get_files :: "'g env \<Rightarrow> string \<Rightarrow> string \<Rightarrow> string \<Rightarrow> exn + string list" where
  "get_files env directory extension pattern =
     (if is_s3_path directory then
        (case list_s3_objects env directory of
           Inl e \<Rightarrow> Inl e
         | Inr objects \<Rightarrow>
             Inr (map (\<lambda>key. ''s3://'' @ fst (parse_s3_path directory) @ ''/'' @ key)
                    (filter (\<lambda>key. endswith key extension \<and> str_in pattern key) objects)))
      else
        (case e_listdir env directory of
           Inl e \<Rightarrow> Inl e
         | Inr fs \<Rightarrow>
             Inr (map (path_join directory)
                    (filter (\<lambda>f. endswith f extension \<and> str_in pattern f) fs))))"

section \<open>Geometry merge\<close>

definition download_if_s3 :: "'g env \<Rightarrow> string \<Rightarrow> exn + string" where
  "download_if_s3 env file_path =
     (if is_s3_path file_path then
        (case download_s3_file env file_path of
           Some e \<Rightarrow> Inl e
         | None \<Rightarrow> Inr file_path)
      else Inr file_path)"

definition merge_geometries :: "'g env \<Rightarrow> 'g option \<Rightarrow> 'g feature list \<Rightarrow> exn + 'g" where
  "merge_geometries env existing_geom new_gdf =
     (case existing_geom of
        None \<Rightarrow> e_union_all env new_gdf
      | Some g \<Rightarrow>
          (case e_union_all env new_gdf of
             Inl e \<Rightarrow> Inl e
           | Inr u \<Rightarrow> e_union env g u))"

definition read_csv :: "'g env \<Rightarrow> string \<Rightarrow> exn + (string \<times> cell) list list" where
  "read_csv env csv_path =
     (if is_s3_path csv_path then
        (case download_s3_file env csv_path of
           Some e \<Rightarrow> Inl e
         | None \<Rightarrow> e_read_csv env csv_path)
      else e_read_csv env csv_path)"

text \<open>The body of the \<open>try\<close> inside the loop over the geometry files.\<close>

definition geometry_file_step :: "'g env \<Rightarrow> string \<Rightarrow> 'g option \<Rightarrow> exn + 'g option" where
  "geometry_file_step env gpkg merged_geom =
     (case download_if_s3 env gpkg of
        Inl e \<Rightarrow> Inl e
      | Inr local_path \<Rightarrow>
          (case e_read_file env local_path of
             Inl e \<Rightarrow> Inl e
           | Inr gdf \<Rightarrow>
               if gdf \<noteq> [] then
                 (case merge_geometries env merged_geom gdf of
                    Inl e \<Rightarrow> Inl e
                  | Inr g \<Rightarrow> Inr (Some g))
               else Inr merged_geom))"

text \<open>The loop over the geometry files: an exception is printed and the file skipped.\<close>

fun merge_files :: "'g env \<Rightarrow> string list \<Rightarrow> 'g option \<Rightarrow> msg list \<times> 'g option" where
  "merge_files env [] merged_geom = ([], merged_geom)"
| "merge_files env (gpkg # rest) merged_geom =
     (case geometry_file_step env gpkg merged_geom of
        Inl e \<Rightarrow>
          (case merge_files env rest merged_geom of
             (l, r) \<Rightarrow> (Error_processing_geometry_file gpkg e # l, r))
      | Inr m \<Rightarrow> merge_files env rest m)"

text \<open>
  Functions that run inside a transaction take the tables as they stand in it and return
  what was printed together with either the exception raised or the result and the
  tables after it.
\<close>

definition load_catchment_geometry ::
  "loader \<Rightarrow> 'g env \<Rightarrow> string \<Rightarrow> db \<Rightarrow> msg list \<times> (exn + string option \<times> db)" where
  "load_catchment_geometry self env catchment_dir d =
     (case get_files env catchment_dir ''.gpkg'' ''gw_catchments'' of
        Inl e \<Rightarrow> ([Loading_catchment_geometry], Inl e)
      | Inr gpkg_files \<Rightarrow>
          if gpkg_files = [] then
            ([Loading_catchment_geometry, No_geometry_files_found], Inr (None, d))
          else
            (case merge_files env gpkg_files None of
               (l, None) \<Rightarrow> (Loading_catchment_geometry # l, Inr (None, d))
             | (l, Some merged_geom) \<Rightarrow>
                 (let catchment_id = generate_uuid self env (e_wkt env merged_geom)
                  in case execute env
                       (Insert_Catchments
                          \<lparr>c_catchment_id = catchment_id,
                           c_hand_version_id = hand_version_id self,
                           c_geometry = e_wkt env merged_geom\<rparr>) d of
                       Inl e \<Rightarrow> (Loading_catchment_geometry # l, Inl e)
                     | Inr (n, d') \<Rightarrow>
                         (Loading_catchment_geometry # l, Inr (Some catchment_id, d')))))"

section \<open>Hydrotables\<close>

definition safe_get :: "(string \<times> cell) list \<Rightarrow> string \<Rightarrow> cell \<Rightarrow> cell" where
  "safe_get row key dflt =
     (case map_of row key of None \<Rightarrow> dflt | Some v \<Rightarrow> v)"

definition prepare_hydro_params :: "loader \<Rightarrow> (string \<times> cell) list \<Rightarrow> string \<Rightarrow> hydro_row" where
  "prepare_hydro_params self row catchment_id =
     \<lparr>h_catchment_id = catchment_id,
      h_hand_version_id = hand_version_id self,
      h_params =
        [(''hydro_id'', safe_get row ''HydroID'' PyNone),
         (''nwm_ver'', nwm_version_id self),
         (''feat_id'', safe_get row ''feature_id'' PyNone),
         (''order_id'', safe_get row ''order'' (PyInt 0)),
         (''num_cells'', safe_get row ''Number of Cells'' (PyInt 0)),
         (''surf_area'', safe_get row ''SurfaceArea (m2)'' PyNone),
         (''bed_area'', safe_get row ''BedArea (m2)'' PyNone),
         (''top_width'', safe_get row ''TopWidth (m)'' PyNone),
         (''length'', safe_get row ''LENGTHKM'' PyNone),
         (''area'', safe_get row ''AREASQKM'' PyNone),
         (''wet_perim'', safe_get row ''WettedPerimeter (m)'' PyNone),
         (''hydraulic_r'', safe_get row ''HydraulicRadius (m)'' PyNone),
         (''wet_area'', safe_get row ''WetArea (m2)'' PyNone),
         (''volume'', safe_get row ''Volume (m3)'' PyNone),
         (''slope'', safe_get row ''SLOPE'' PyNone),
         (''manning_n'', safe_get row ''ManningN'' PyNone),
         (''stage'', safe_get row ''stage'' PyNone),
         (''discharge'', safe_get row ''discharge_cms'' PyNone),
         (''def_discharge'', safe_get row ''default_discharge_cms'' PyNone),
         (''def_volume'', safe_get row ''default_Volume (m3)'' PyNone),
         (''def_wet_area'', safe_get row ''default_WetArea (m2)'' PyNone),
         (''def_hydraulic_r'', safe_get row ''default_HydraulicRadius (m)'' PyNone),
         (''def_manning_n'', safe_get row ''default_ManningN'' PyNone),
         (''bath_source'', safe_get row ''Bathymetry_source'' PyNone),
         (''subdiv_applied'', safe_get row ''subdiv_applied'' (PyBool False)),
         (''overbank_n'', safe_get row ''overbank_n'' PyNone),
         (''channel_n'', safe_get row ''channel_n'' PyNone),
         (''subdiv_discharge'', safe_get row ''subdiv_discharge_cms'' PyNone),
         (''calb_applied'', safe_get row ''calb_applied'' (PyBool False)),
         (''lake_id'', safe_get row ''LakeID'' PyNone)]\<rparr>"

fun insert_hydro_records ::
  "loader \<Rightarrow> 'g env \<Rightarrow> (string \<times> cell) list list \<Rightarrow> string \<Rightarrow> db \<Rightarrow> exn + db" where
  "insert_hydro_records self env [] catchment_id d = Inr d"
| "insert_hydro_records self env (row # rows) catchment_id d =
     (case execute env (Insert_Hydrotables (prepare_hydro_params self row catchment_id)) d of
        Inl e \<Rightarrow> Inl e
      | Inr (n, d') \<Rightarrow> insert_hydro_records self env rows catchment_id d')"

text \<open>The loop over the rating-table files: an exception is printed and raised again.\<close>

fun hydrotable_files ::
  "loader \<Rightarrow> 'g env \<Rightarrow> string list \<Rightarrow> string \<Rightarrow> db \<Rightarrow> msg list \<times> (exn + db)" where
  "hydrotable_files self env [] catchment_id d = ([], Inr d)"
| "hydrotable_files self env (csv_path # rest) catchment_id d =
     (case (case read_csv env csv_path of
              Inl e \<Rightarrow> Inl e
            | Inr df \<Rightarrow> insert_hydro_records self env df catchment_id d) of
        Inl e \<Rightarrow> ([Error_processing_hydrotable csv_path e], Inl e)
      | Inr d' \<Rightarrow> hydrotable_files self env rest catchment_id d')"

definition load_hydrotables ::
  "loader \<Rightarrow> 'g env \<Rightarrow> string \<Rightarrow> string \<Rightarrow> db \<Rightarrow> msg list \<times> (exn + db)" where
  "load_hydrotables self env catchment_dir catchment_id d =
     (case get_files env catchment_dir ''.csv'' ''hydroTable_'' of
        Inl e \<Rightarrow> ([Loading_hydrotables], Inl e)
      | Inr csv_files \<Rightarrow>
          if csv_files = [] then ([Loading_hydrotables, No_hydrotable_files_found], Inr d)
          else
            (case hydrotable_files self env csv_files catchment_id d of
               (l, r) \<Rightarrow> (Loading_hydrotables # l, r)))"

section \<open>Raster references\<close>

fun insert_rem_rasters ::
  "loader \<Rightarrow> 'g env \<Rightarrow> string list \<Rightarrow> string \<Rightarrow> db \<Rightarrow> exn + string list \<times> db" where
  "insert_rem_rasters self env [] catchment_id d = Inr ([], d)"
| "insert_rem_rasters self env (file_path # files) catchment_id d =
     (case execute env
        (Insert_HAND_REM_Rasters
           \<lparr>r_rem_raster_id = generate_uuid self env file_path,
            r_catchment_id = catchment_id,
            r_hand_version_id = hand_version_id self,
            r_raster_path = file_path\<rparr>) d of
        Inl e \<Rightarrow> Inl e
      | Inr (n, d') \<Rightarrow>
          (case insert_rem_rasters self env files catchment_id d' of
             Inl e \<Rightarrow> Inl e
           | Inr (ids, d'') \<Rightarrow> Inr (generate_uuid self env file_path # ids, d'')))"

fun insert_catchment_rasters ::
  "loader \<Rightarrow> 'g env \<Rightarrow> string list \<Rightarrow> string list \<Rightarrow> db \<Rightarrow> exn + db" where
  "insert_catchment_rasters self env [] rem_raster_ids d = Inr d"
| "insert_catchment_rasters self env (file_path # files) rem_raster_ids d =
     (case rem_raster_ids of
        [] \<Rightarrow> insert_catchment_rasters self env files rem_raster_ids d
      | first_id # other_ids \<Rightarrow>
          (case execute env
             (Insert_HAND_Catchment_Rasters
                \<lparr>cr_catchment_raster_id = generate_uuid self env file_path,
                 cr_rem_raster_id = first_id,
                 cr_raster_path = file_path\<rparr>) d of
             Inl e \<Rightarrow> Inl e
           | Inr (n, d') \<Rightarrow> insert_catchment_rasters self env files rem_raster_ids d'))"

text \<open>The \<open>try\<close> block of \<open>load_rasters\<close>; its handler prints and raises again.\<close>

definition raster_inserts ::
  "loader \<Rightarrow> 'g env \<Rightarrow> string list \<Rightarrow> string list \<Rightarrow> string \<Rightarrow> db
     \<Rightarrow> msg list \<times> (exn + db)" where
  "raster_inserts self env rem_files catchment_files catchment_id d =
     (case insert_rem_rasters self env rem_files catchment_id d of
        Inl e \<Rightarrow> ([], Inl e)
      | Inr (rem_raster_ids, d1) \<Rightarrow>
          if catchment_files \<noteq> [] then
            (case insert_catchment_rasters self env catchment_files rem_raster_ids d1 of
               Inl e \<Rightarrow> ([], Inl e)
             | Inr d2 \<Rightarrow> ([], Inr d2))
          else ([No_catchment_raster_files_found], Inr d1))"

definition load_rasters ::
  "loader \<Rightarrow> 'g env \<Rightarrow> string \<Rightarrow> string \<Rightarrow> db \<Rightarrow> msg list \<times> (exn + db)" where
  "load_rasters self env catchment_dir catchment_id d =
     (case get_files env catchment_dir ''.tif'' ''rem_zeroed_'' of
        Inl e \<Rightarrow> ([Loading_REM_rasters], Inl e)
      | Inr rem_files \<Rightarrow>
          if rem_files = [] then ([Loading_REM_rasters, No_REM_raster_files_found], Inr d)
          else
            (case get_files env catchment_dir ''.tif'' ''gw_catchments'' of
               Inl e \<Rightarrow> ([Loading_REM_rasters, Loading_catchment_rasters], Inl e)
             | Inr catchment_files \<Rightarrow>
                 (case raster_inserts self env rem_files catchment_files catchment_id d of
                    (l, Inl e) \<Rightarrow>
                      ([Loading_REM_rasters, Loading_catchment_rasters] @ l
                         @ [Error_processing_rasters e], Inl e)
                  | (l, Inr d') \<Rightarrow>
                      ([Loading_REM_rasters, Loading_catchment_rasters] @ l, Inr d'))))"

section \<open>The per-catchment transaction and the batch\<close>

text \<open>
  \<open>_cleanup_catchment\<close>: nothing for \<open>None\<close>; otherwise three deletes in a transaction
  of their own. The result is the exception raised or the tables after the commit; the
  caller keeps the tables it had when the result is an exception.
\<close>

definition cleanup_catchment ::
  "loader \<Rightarrow> 'g env \<Rightarrow> string option \<Rightarrow> db \<Rightarrow> msg list \<times> (exn + db)" where
  "cleanup_catchment self env catchment_id d =
     (case catchment_id of
        None \<Rightarrow> ([], Inr d)
      | Some cid \<Rightarrow>
          ([Cleaning_up cid],
           (case execute env (Delete_Hydrotables cid (hand_version_id self)) d of
              Inl e \<Rightarrow> Inl e
            | Inr (n1, d1) \<Rightarrow>
                (case execute env (Delete_HAND_REM_Rasters cid (hand_version_id self)) d1 of
                   Inl e \<Rightarrow> Inl e
                 | Inr (n2, d2) \<Rightarrow>
                     (case execute env (Delete_Catchments cid (hand_version_id self)) d2 of
                        Inl e \<Rightarrow> Inl e
                      | Inr (n3, d3) \<Rightarrow> Inr d3)))))"

text \<open>
  The local variable \<open>catchment_id\<close> of \<open>load_hand_data\<close> lives across the iterations
  of the loop: it has no value until the first assignment and keeps the last value
  assigned afterwards.
\<close>

datatype 'a local_var = Unbound | Bound 'a

text \<open>
  The block under \<open>with self.engine.begin() as transaction\<close>: what is printed, the value
  of \<open>catchment_id\<close> when the block is left, and the exception or the tables to commit.
\<close>

definition catchment_transaction ::
  "loader \<Rightarrow> 'g env \<Rightarrow> string \<Rightarrow> string option local_var \<Rightarrow> db
     \<Rightarrow> msg list \<times> string option local_var \<times> (exn + db)" where
  "catchment_transaction self env catchment_dir v d =
     (case load_catchment_geometry self env catchment_dir d of
        (l1, Inl e) \<Rightarrow> (l1, v, Inl e)
      | (l1, Inr (None, d1)) \<Rightarrow>
          (l1 @ [Skipping_catchment catchment_dir], Bound None, Inr d1)
      | (l1, Inr (Some catchment_id, d1)) \<Rightarrow>
          (case load_hydrotables self env catchment_dir catchment_id d1 of
             (l2, Inl e) \<Rightarrow> (l1 @ l2, Bound (Some catchment_id), Inl e)
           | (l2, Inr d2) \<Rightarrow>
               (case load_rasters self env catchment_dir catchment_id d2 of
                  (l3, Inl e) \<Rightarrow> (l1 @ l2 @ l3, Bound (Some catchment_id), Inl e)
                | (l3, Inr d3) \<Rightarrow> (l1 @ l2 @ l3, Bound (Some catchment_id), Inr d3))))"

text \<open>
  One iteration of the loop. A normal exit of the block commits; an exception rolls the
  tables back to \<open>d\<close> and runs the handler, which reads \<open>catchment_id\<close>. The last
  component is the exception that leaves the loop, if any.
\<close>

definition process_catchment ::
  "loader \<Rightarrow> 'g env \<Rightarrow> nat \<Rightarrow> nat \<Rightarrow> string \<Rightarrow> db \<times> string option local_var
     \<Rightarrow> msg list \<times> db \<times> string option local_var \<times> exn option" where
  "process_catchment self env idx n_total catchment_dir st =
     (case st of (d, v) \<Rightarrow>
        (case catchment_transaction self env catchment_dir v d of
           (l, v', Inr d') \<Rightarrow>
             (Processing_catchment idx n_total catchment_dir # l, d', v', None)
         | (l, v', Inl e) \<Rightarrow>
             (case v' of
                Unbound \<Rightarrow>
                  (Processing_catchment idx n_total catchment_dir # l
                     @ [Error_processing_catchment catchment_dir e],
                   d, v', Some (UnboundLocalError ''catchment_id''))
              | Bound catchment_id \<Rightarrow>
                  (case cleanup_catchment self env catchment_id d of
                     (lc, Inl e2) \<Rightarrow>
                       (Processing_catchment idx n_total catchment_dir # l
                          @ [Error_processing_catchment catchment_dir e] @ lc,
                        d, v', Some e2)
                   | (lc, Inr d2) \<Rightarrow>
                       (Processing_catchment idx n_total catchment_dir # l
                          @ [Error_processing_catchment catchment_dir e] @ lc,
                        d2, v', None)))))"

fun process_catchments ::
  "loader \<Rightarrow> 'g env \<Rightarrow> nat \<Rightarrow> nat \<Rightarrow> string list \<Rightarrow> db \<times> string option local_var
     \<Rightarrow> msg list \<times> db \<times> string option local_var \<times> exn option" where
  "process_catchments self env idx n_total [] st = ([], fst st, snd st, None)"
| "process_catchments self env idx n_total (catchment_dir # rest) st =
     (case process_catchment self env idx n_total catchment_dir st of
        (l, d', v', Some e) \<Rightarrow> (l, d', v', Some e)
      | (l, d', v', None) \<Rightarrow>
          (case process_catchments self env (idx + 1) n_total rest (d', v') of
             (l2, r) \<Rightarrow> (l @ l2, r)))"

definition load_hand_data ::
  "loader \<Rightarrow> 'g env \<Rightarrow> string \<Rightarrow> db \<Rightarrow> msg list \<times> db \<times> exn option" where
  "load_hand_data self env hand_dir d =
     (case get_catchment_dirs env hand_dir of
        Inl e \<Rightarrow> ([], d, Some e)
      | Inr catchment_dirs \<Rightarrow>
          (case process_catchments self env 1 (length catchment_dirs) catchment_dirs
                  (d, Unbound) of
             (l, d', v, r) \<Rightarrow> (Found_catchments (length catchment_dirs) # l, d', r)))"

section \<open>The river-network feature loader\<close>

text \<open>
  \<open>temp_load_gpkg\<close> is an ordinary method, declared without a decorator and
  without \<open>yield\<close>: it returns the value of \<open>gpd.read_file\<close>, a GeoDataFrame.
\<close>

definition temp_load_gpkg :: "'g env \<Rightarrow> string \<Rightarrow> exn + 'g feature list" where
  "temp_load_gpkg env gpkg_uri =
     (if is_s3_path gpkg_uri then
        (case download_s3_file env gpkg_uri of
           Some e \<Rightarrow> Inl e
         | None \<Rightarrow> e_read_file env gpkg_uri)
      else e_read_file env gpkg_uri)"

text \<open>
  The \<open>with\<close> statement looks up \<open>__enter__\<close> and \<open>__exit__\<close> on the class of its
  operand and raises when the class has none. Of the classes the loader puts under
  \<open>with\<close>, the data frame is the one without them.
\<close>

datatype pyclass = GeoDataFrame | Connection | TemporaryDirectory | NamedTemporaryFile

fun context_manager :: "pyclass \<Rightarrow> bool" where
  "context_manager GeoDataFrame = False"
| "context_manager Connection = True"
| "context_manager TemporaryDirectory = True"
| "context_manager NamedTemporaryFile = True"

definition with_as :: "pyclass \<Rightarrow> msg list \<times> (exn + 'b) \<Rightarrow> msg list \<times> (exn + 'b)" where
  "with_as cls body =
     (if context_manager cls then body
      else ([], Inl (TypeError ''object does not support the context manager protocol'')))"

text \<open>\<open>row[key]\<close> for each key in turn; a missing column raises.\<close>

fun row_items :: "(string \<times> cell) list \<Rightarrow> string list \<Rightarrow> exn + cell list" where
  "row_items row [] = Inr []"
| "row_items row (k # ks) =
     (case map_of row k of
        None \<Rightarrow> Inl (KeyError k)
      | Some v \<Rightarrow> (case row_items row ks of Inl e \<Rightarrow> Inl e | Inr vs \<Rightarrow> Inr (v # vs)))"

definition nwm_feature_params :: "loader \<Rightarrow> 'g env \<Rightarrow> 'g feature \<Rightarrow> exn + nwm_row" where
  "nwm_feature_params self env row =
     (case row_items (f_attrs row)
             [''ID'', ''to'', ''order_'', ''Lake'', ''gages'', ''Slope'', ''mainstem''] of
        Inl e \<Rightarrow> Inl e
      | Inr vs \<Rightarrow>
          Inr \<lparr>n_nwm_feature_id = hd vs,
               n_nwm_version_id = nwm_version_id self,
               n_geometry = e_wkt env (f_geometry row),
               n_params =
                 zip [''to_feature'', ''order'', ''lake'', ''gages'', ''slope'', ''mainstem'']
                   (tl vs)\<rparr>)"

text \<open>The loop over the rows, with the running \<open>dropped_count\<close>.\<close>

fun nwm_features_loop ::
  "loader \<Rightarrow> 'g env \<Rightarrow> 'g feature list \<Rightarrow> nat \<Rightarrow> db \<Rightarrow> exn + nat \<times> db" where
  "nwm_features_loop self env [] dropped_count d = Inr (dropped_count, d)"
| "nwm_features_loop self env (row # rows) dropped_count d =
     (case nwm_feature_params self env row of
        Inl e \<Rightarrow> Inl e
      | Inr params \<Rightarrow>
          (case execute env (Insert_NWM_Features_on_conflict_do_nothing params) d of
             Inl e \<Rightarrow> Inl e
           | Inr (rowcount, d') \<Rightarrow>
               nwm_features_loop self env rows
                 (if rowcount = 0 then dropped_count + 1 else dropped_count) d'))"

text \<open>
  \<open>load_nwm_features\<close>. The block under \<open>with ... as gdf\<close> selects the
  \<open>nwm_streams\<close> layer (read here as the rows of the frame), runs the loop in one
  transaction and prints the count.
\<close>

definition load_nwm_features ::
  "loader \<Rightarrow> 'g env \<Rightarrow> string \<Rightarrow> db \<Rightarrow> msg list \<times> db \<times> exn option" where
  "load_nwm_features self env gpkg_path d =
     (case temp_load_gpkg env gpkg_path of
        Inl e \<Rightarrow> ([Loading_NWM_features], d, Some e)
      | Inr gdf \<Rightarrow>
          (case with_as GeoDataFrame
                  (case nwm_features_loop self env gdf 0 d of
                     Inl e \<Rightarrow> ([], Inl e)
                   | Inr (dropped_count, d') \<Rightarrow>
                       ([Dropped_duplicate_NWM_features dropped_count], Inr d')) of
             (l, Inl e) \<Rightarrow> (Loading_NWM_features # l, d, Some e)
           | (l, Inr d') \<Rightarrow> (Loading_NWM_features # l, d', None)))"

section \<open>Notions used to state the properties\<close>

text \<open>
  The numbers of rows of the three catchment-scoped tables that carry a given catchment
  identifier under the loader's hand version.
\<close>

definition visible_rows :: "loader \<Rightarrow> string \<Rightarrow> db \<Rightarrow> nat \<times> nat \<times> nat" where
  "visible_rows self cid d =
     (length (filter (\<lambda>r. c_catchment_id r = cid \<and> c_hand_version_id r = hand_version_id self)
        (Catchments d)),
      length (filter (\<lambda>r. h_catchment_id r = cid \<and> h_hand_version_id r = hand_version_id self)
        (Hydrotables d)),
      length (filter (\<lambda>r. r_catchment_id r = cid \<and> r_hand_version_id r = hand_version_id self)
        (HAND_REM_Rasters d)))"

text \<open>The tables with every such row removed.\<close>

definition purge :: "loader \<Rightarrow> string \<Rightarrow> db \<Rightarrow> db" where
  "purge self cid d =
     d\<lparr>Hydrotables :=
         filter (\<lambda>r. \<not> (h_catchment_id r = cid \<and> h_hand_version_id r = hand_version_id self))
           (Hydrotables d),
       HAND_REM_Rasters :=
         filter (\<lambda>r. \<not> (r_catchment_id r = cid \<and> r_hand_version_id r = hand_version_id self))
           (HAND_REM_Rasters d),
       Catchments :=
         filter (\<lambda>r. \<not> (c_catchment_id r = cid \<and> c_hand_version_id r = hand_version_id self))
           (Catchments d)\<rparr>"

text \<open>A geometry file that contributes nothing: it cannot be fetched or read, or is empty.\<close>

definition no_geometry_in :: "'g env \<Rightarrow> string \<Rightarrow> bool" where
  "no_geometry_in env gpkg =
     (case download_if_s3 env gpkg of
        Inl e \<Rightarrow> True
      | Inr local_path \<Rightarrow>
          (case e_read_file env local_path of Inl e \<Rightarrow> True | Inr gdf \<Rightarrow> gdf = []))"

text \<open>The two lines the batch prints when it treats a unit as failed.\<close>

fun failure_report :: "msg \<Rightarrow> bool" where
  "failure_report (Error_processing_catchment catchment_dir e) = True"
| "failure_report (Cleaning_up cid) = True"
| "failure_report m = False"

text \<open>What \<open>load_catchment_geometry\<close> prints for a unit whose files yield no geometry.\<close>

definition geometry_log :: "'g env \<Rightarrow> string list \<Rightarrow> msg list" where
  "geometry_log env files =
     (if files = [] then [Loading_catchment_geometry, No_geometry_files_found]
      else Loading_catchment_geometry # fst (merge_files env files None))"

text \<open>
  The qualification rule in the words of the specification: some segment is an 8-digit
  digit string, the segment right after it is \<open>branches\<close>, and a further segment
  follows.
\<close>

definition spec_qualifies :: "string list \<Rightarrow> bool" where
  "spec_qualifies parts =
     list_ex (\<lambda>i. isdigit (parts ! i) \<and> length (parts ! i) = 8 \<and> parts ! (i + 1) = ''branches'')
       [0 ..< length parts - 2]"

section \<open>A small installation\<close>

text \<open>
  A local tree with one region and six units: unit 0 is complete, the second row of
  unit 1's rating table lacks its HydroID, unit 2 has no geometry file, unit 3 has no
  rating table, unit 4 has a catchment raster but no REM raster and the geometry file of
  unit 5 cannot be read. The database refuses
  a second Catchments row with the same identifier and a Hydrotables row without HydroID.
\<close>

definition demo_listdir :: "string \<Rightarrow> exn + string list" where
  "demo_listdir p =
     (if p = ''/hand'' then Inr [''12345678'', ''readme.txt'']
      else if p = ''/hand/12345678/branches'' then
        Inr [''0'', ''1'', ''2'', ''3'', ''4'', ''5'']
      else if p = ''/hand/12345678/branches/0'' then
        Inr [''gw_catchments_0.gpkg'', ''hydroTable_0.csv'', ''rem_zeroed_0.tif'',
             ''gw_catchments_0.tif'']
      else if p = ''/hand/12345678/branches/1'' then
        Inr [''gw_catchments_1.gpkg'', ''hydroTable_1.csv'']
      else if p = ''/hand/12345678/branches/2'' then Inr [''notes.txt'']
      else if p = ''/hand/12345678/branches/3'' then
        Inr [''gw_catchments_3.gpkg'', ''rem_zeroed_3.tif'']
      else if p = ''/hand/12345678/branches/4'' then
        Inr [''gw_catchments_4.gpkg'', ''gw_catchments_4.tif'']
      else if p = ''/hand/12345678/branches/5'' then Inr [''gw_catchments_5.gpkg'']
      else Inl (OSError p))"

definition demo_isdir :: "string \<Rightarrow> bool" where
  "demo_isdir p = (p \<in> set [''/hand'', ''/hand/12345678'', ''/hand/12345678/branches'',
     ''/hand/12345678/branches/0'', ''/hand/12345678/branches/1'',
     ''/hand/12345678/branches/2'', ''/hand/12345678/branches/3'',
     ''/hand/12345678/branches/4'', ''/hand/12345678/branches/5''])"

definition demo_read_file :: "string \<Rightarrow> exn + string feature list" where
  "demo_read_file p =
     (if p = ''/hand/12345678/branches/0/gw_catchments_0.gpkg'' then
        Inr [\<lparr>f_attrs = [], f_geometry = ''POLYGON ((0 0, 1 0, 1 1, 0 0))''\<rparr>]
      else if p = ''/hand/12345678/branches/1/gw_catchments_1.gpkg'' then
        Inr [\<lparr>f_attrs = [], f_geometry = ''POLYGON ((2 2, 3 2, 3 3, 2 2))''\<rparr>]
      else if p = ''/hand/12345678/branches/3/gw_catchments_3.gpkg'' then
        Inr [\<lparr>f_attrs = [], f_geometry = ''POLYGON ((4 4, 5 4, 5 5, 4 4))''\<rparr>]
      else if p = ''/hand/12345678/branches/4/gw_catchments_4.gpkg'' then
        Inr [\<lparr>f_attrs = [], f_geometry = ''POLYGON ((6 6, 7 6, 7 7, 6 6))''\<rparr>]
      else Inl (ReadError p))"

definition demo_read_csv :: "string \<Rightarrow> exn + (string \<times> cell) list list" where
  "demo_read_csv p =
     (if p = ''/hand/12345678/branches/0/hydroTable_0.csv'' then
        Inr [[(''HydroID'', PyInt 7), (''stage'', PyInt 0)],
             [(''HydroID'', PyInt 7), (''stage'', PyInt 1)]]
      else if p = ''/hand/12345678/branches/1/hydroTable_1.csv'' then
        Inr [[(''HydroID'', PyInt 9), (''stage'', PyInt 0)], [(''stage'', PyInt 1)]]
      else Inl (ReadError p))"

definition demo_accepts :: "db \<Rightarrow> stmt \<Rightarrow> bool" where
  "demo_accepts d st =
     (case st of
        Insert_Catchments r \<Rightarrow>
          \<not> list_ex (\<lambda>r'. c_catchment_id r' = c_catchment_id r) (Catchments d)
      | Insert_Hydrotables r \<Rightarrow> map_of (h_params r) ''hydro_id'' \<noteq> Some PyNone
      | _ \<Rightarrow> True)"

definition demo_env :: "string env" where
  "demo_env =
     \<lparr>e_listdir = demo_listdir,
      e_isdir = demo_isdir,
      e_list_objects_v2 = (\<lambda>bucket pref. Inl (ClientError bucket)),
      e_download_file = (\<lambda>bucket key. Some (ClientError bucket)),
      e_read_file = demo_read_file,
      e_read_csv = demo_read_csv,
      e_union_all = (\<lambda>gdf. Inr (join_sep '' + '' (map f_geometry gdf))),
      e_union = (\<lambda>a b. Inr (a @ '' + '' @ b)),
      e_wkt = (\<lambda>g. g),
      e_uuid5 = (\<lambda>ns name. ''uuid5:'' @ name),
      e_accepts = demo_accepts\<rparr>"

definition demo_loader :: loader where
  "demo_loader = \<lparr>hand_version_id = ''v3.0'', nwm_version_id = PyFloat 3 0\<rparr>"

definition empty_db :: db where
  "empty_db = \<lparr>Hand_Versions = [''v3.0''], Catchments = [], Hydrotables = [],
     HAND_REM_Rasters = [], HAND_Catchment_Rasters = [], NWM_Features = []\<rparr>"

definition demo_db1 :: db where
  "demo_db1 = empty_db\<lparr>Catchments :=
      [\<lparr>c_catchment_id = ''uuid5:POLYGON ((2 2, 3 2, 3 3, 2 2))'',
        c_hand_version_id = ''v3.0'',
        c_geometry = ''POLYGON ((2 2, 3 2, 3 3, 2 2))''\<rparr>]\<rparr>"

text \<open>The tables after the raster references of unit 0 are loaded into the empty database.\<close>

definition demo_db0 :: db where
  "demo_db0 = empty_db\<lparr>
     HAND_REM_Rasters :=
       [\<lparr>r_rem_raster_id = ''uuid5:/hand/12345678/branches/0/rem_zeroed_0.tif'',
         r_catchment_id = ''c0'', r_hand_version_id = ''v3.0'',
         r_raster_path = ''/hand/12345678/branches/0/rem_zeroed_0.tif''\<rparr>],
     HAND_Catchment_Rasters :=
       [\<lparr>cr_catchment_raster_id = ''uuid5:/hand/12345678/branches/0/gw_catchments_0.tif'',
         cr_rem_raster_id = ''uuid5:/hand/12345678/branches/0/rem_zeroed_0.tif'',
         cr_raster_path = ''/hand/12345678/branches/0/gw_catchments_0.tif''\<rparr>]\<rparr>"

definition demo_db3 :: db where
  "demo_db3 = empty_db\<lparr>Catchments :=
      [\<lparr>c_catchment_id = ''uuid5:POLYGON ((4 4, 5 4, 5 5, 4 4))'',
        c_hand_version_id = ''v3.0'',
        c_geometry = ''POLYGON ((4 4, 5 4, 5 5, 4 4))''\<rparr>]\<rparr>"

text \<open>
  The tree of the specification's example, \<open>12345678/branches/unitA/...\<close> beside
  \<open>12345678/nope/unitB/...\<close>, once on local disk under \<open>/root\<close> and once as the
  objects of a bucket under the prefix \<open>root\<close>.
\<close>

definition example_listdir :: "string \<Rightarrow> exn + string list" where
  "example_listdir p =
     (if p = ''/root'' then Inr [''12345678'']
      else if p = ''/root/12345678'' then Inr [''branches'', ''nope'']
      else if p = ''/root/12345678/branches'' then Inr [''unitA'']
      else if p = ''/root/12345678/nope'' then Inr [''unitB'']
      else if p = ''/root/12345678/branches/unitA'' then Inr [''gw_catchments_0.gpkg'']
      else if p = ''/root/12345678/nope/unitB'' then Inr [''gw_catchments_1.gpkg'']
      else Inl (OSError p))"

definition example_isdir :: "string \<Rightarrow> bool" where
  "example_isdir p = (p \<in> set [''/root'', ''/root/12345678'', ''/root/12345678/branches'',
     ''/root/12345678/nope'', ''/root/12345678/branches/unitA'',
     ''/root/12345678/nope/unitB''])"

definition example_objects :: "string \<Rightarrow> string \<Rightarrow> exn + string list" where
  "example_objects bucket pref =
     (if bucket = ''bucket'' then
        Inr (filter (\<lambda>key. prefix pref key)
               [''root/12345678/branches/unitA/gw_catchments_0.gpkg'',
                ''root/12345678/branches/unitA/rem_zeroed_0.tif'',
                ''root/12345678/nope/unitB/gw_catchments_1.gpkg''])
      else Inl (ClientError bucket))"

definition example_env :: "string env" where
  "example_env = demo_env\<lparr>e_listdir := example_listdir, e_isdir := example_isdir,
     e_list_objects_v2 := example_objects\<rparr>"

text \<open>A tree whose region directory lies one level below the root, in both stores.\<close>

definition nested_listdir :: "string \<Rightarrow> exn + string list" where
  "nested_listdir p =
     (if p = ''/data'' then Inr [''region'']
      else if p = ''/data/region'' then Inr [''12345678'']
      else if p = ''/data/region/12345678'' then Inr [''branches'']
      else if p = ''/data/region/12345678/branches'' then Inr [''unitA'']
      else if p = ''/data/region/12345678/branches/unitA'' then Inr [''gw_catchments_0.gpkg'']
      else Inl (OSError p))"

definition nested_isdir :: "string \<Rightarrow> bool" where
  "nested_isdir p = (p \<in> set [''/data'', ''/data/region'', ''/data/region/12345678'',
     ''/data/region/12345678/branches'', ''/data/region/12345678/branches/unitA''])"

definition nested_objects :: "string \<Rightarrow> string \<Rightarrow> exn + string list" where
  "nested_objects bucket pref =
     (if bucket = ''bucket'' then
        Inr (filter (\<lambda>key. prefix pref key)
               [''data/region/12345678/branches/unitA/gw_catchments_0.gpkg''])
      else Inl (ClientError bucket))"

definition nested_env :: "string env" where
  "nested_env = demo_env\<lparr>e_listdir := nested_listdir, e_isdir := nested_isdir,
     e_list_objects_v2 := nested_objects\<rparr>"

text \<open>
  The database as a previous run over the same tree leaves it for unit 0: its Catchments
  row is present.
\<close>

definition demo_db_rerun :: db where
  "demo_db_rerun = empty_db\<lparr>Catchments :=
      [\<lparr>c_catchment_id = ''uuid5:POLYGON ((0 0, 1 0, 1 1, 0 0))'',
        c_hand_version_id = ''v3.0'',
        c_geometry = ''POLYGON ((0 0, 1 0, 1 1, 0 0))''\<rparr>]\<rparr>"

text \<open>A river-network file whose \<open>nwm_streams\<close> rows hold the same feature twice.\<close>

definition nwm_stream :: "string feature" where
  "nwm_stream =
     \<lparr>f_attrs = [(''ID'', PyInt 101), (''to'', PyInt 102), (''order_'', PyInt 1),
                 (''Lake'', PyInt (- 1)), (''gages'', PyNone), (''Slope'', PyFloat 1 (- 10)),
                 (''mainstem'', PyInt 0)],
      f_geometry = ''LINESTRING (0 0, 1 1)''\<rparr>"

definition nwm_env :: "string env" where
  "nwm_env = demo_env\<lparr>e_read_file :=
     (\<lambda>p. if p = ''/general/nwm_flows.gpkg'' then Inr [nwm_stream, nwm_stream]
          else Inl (ReadError p))\<rparr>"

definition nwm_feature_row :: nwm_row where
  "nwm_feature_row =
     \<lparr>n_nwm_feature_id = PyInt 101, n_nwm_version_id = PyFloat 3 0,
      n_geometry = ''LINESTRING (0 0, 1 1)'',
      n_params = [(''to_feature'', PyInt 102), (''order'', PyInt 1), (''lake'', PyInt (- 1)),
                  (''gages'', PyNone), (''slope'', PyFloat 1 (- 10)), (''mainstem'', PyInt 0)]\<rparr>"

section \<open>Effects of the insert loops on the tables\<close>

lemma execute_Inr: "execute env st d = Inr (n, d') \<Longrightarrow> (n, d') = apply_stmt st d"
  by (auto simp: execute_def split: if_splits)

lemma insert_hydro_records_tables:
  "insert_hydro_records self env rows cid d = Inr d' \<Longrightarrow>
     Catchments d' = Catchments d \<and> HAND_REM_Rasters d' = HAND_REM_Rasters d
     \<and> HAND_Catchment_Rasters d' = HAND_Catchment_Rasters d \<and> NWM_Features d' = NWM_Features d
     \<and> Hand_Versions d' = Hand_Versions d
     \<and> Hydrotables d' = Hydrotables d @ map (\<lambda>row. prepare_hydro_params self row cid) rows"
proof (induction rows arbitrary: d)
  case Nil then show ?case by simp
next
  case (Cons row rows)
  then show ?case
    by (auto simp: execute_def split: if_splits sum.splits prod.splits)
qed

lemma insert_rem_rasters_tables:
  "insert_rem_rasters self env files cid d = Inr (ids, d') \<Longrightarrow>
     ids = map (generate_uuid self env) files
     \<and> Catchments d' = Catchments d \<and> Hydrotables d' = Hydrotables d
     \<and> HAND_Catchment_Rasters d' = HAND_Catchment_Rasters d \<and> NWM_Features d' = NWM_Features d
     \<and> Hand_Versions d' = Hand_Versions d
     \<and> HAND_REM_Rasters d' = HAND_REM_Rasters d @
          map (\<lambda>f. \<lparr>r_rem_raster_id = generate_uuid self env f, r_catchment_id = cid,
                     r_hand_version_id = hand_version_id self, r_raster_path = f\<rparr>) files"
proof (induction files arbitrary: d ids)
  case Nil then show ?case by simp
next
  case (Cons f files)
  then show ?case
    by (fastforce simp: execute_def split: if_splits sum.splits prod.splits)
qed

lemma insert_catchment_rasters_tables:
  "insert_catchment_rasters self env files (i # ids) d = Inr d' \<Longrightarrow>
     Catchments d' = Catchments d \<and> Hydrotables d' = Hydrotables d
     \<and> HAND_REM_Rasters d' = HAND_REM_Rasters d \<and> NWM_Features d' = NWM_Features d
     \<and> Hand_Versions d' = Hand_Versions d
     \<and> HAND_Catchment_Rasters d' = HAND_Catchment_Rasters d @
          map (\<lambda>f. \<lparr>cr_catchment_raster_id = generate_uuid self env f, cr_rem_raster_id = i,
                     cr_raster_path = f\<rparr>) files"
proof (induction files arbitrary: d)
  case Nil then show ?case by simp
next
  case (Cons f files)
  then show ?case
    by (fastforce simp: execute_def split: if_splits sum.splits prod.splits)
qed

lemma hydrotable_files_tables:
  "hydrotable_files self env files cid d = (l, Inr d') \<Longrightarrow>
     Catchments d' = Catchments d \<and> HAND_REM_Rasters d' = HAND_REM_Rasters d
     \<and> HAND_Catchment_Rasters d' = HAND_Catchment_Rasters d \<and> NWM_Features d' = NWM_Features d
     \<and> Hand_Versions d' = Hand_Versions d"
proof (induction files arbitrary: d l)
  case Nil then show ?case by simp
next
  case (Cons f files)
  then show ?case
    by (auto split: sum.splits dest!: insert_hydro_records_tables)
qed

lemma load_hydrotables_tables:
  "load_hydrotables self env dir cid d = (l, Inr d') \<Longrightarrow>
     Catchments d' = Catchments d \<and> HAND_REM_Rasters d' = HAND_REM_Rasters d
     \<and> HAND_Catchment_Rasters d' = HAND_Catchment_Rasters d \<and> NWM_Features d' = NWM_Features d
     \<and> Hand_Versions d' = Hand_Versions d"
  by (auto simp: load_hydrotables_def split: sum.splits if_splits prod.splits
      dest!: hydrotable_files_tables)

lemma raster_inserts_tables:
  assumes "raster_inserts self env rem_files catchment_files cid d = (l, Inr d')"
    and "rem_files \<noteq> []"
  shows "Catchments d' = Catchments d \<and> Hydrotables d' = Hydrotables d
     \<and> NWM_Features d' = NWM_Features d \<and> Hand_Versions d' = Hand_Versions d
     \<and> HAND_REM_Rasters d' = HAND_REM_Rasters d @
          map (\<lambda>f. \<lparr>r_rem_raster_id = generate_uuid self env f, r_catchment_id = cid,
                     r_hand_version_id = hand_version_id self, r_raster_path = f\<rparr>) rem_files
     \<and> HAND_Catchment_Rasters d' = HAND_Catchment_Rasters d @
          map (\<lambda>f. \<lparr>cr_catchment_raster_id = generate_uuid self env f,
                     cr_rem_raster_id = generate_uuid self env (hd rem_files),
                     cr_raster_path = f\<rparr>) catchment_files"
proof -
  obtain f fs where rf: "rem_files = f # fs" using assms(2) by (cases rem_files) auto
  from assms(1) obtain ids d1 where
    1: "insert_rem_rasters self env rem_files cid d = Inr (ids, d1)"
    by (auto simp: raster_inserts_def split: sum.splits)
  note t1 = insert_rem_rasters_tables[OF 1]
  then have ids: "ids = generate_uuid self env f # map (generate_uuid self env) fs"
    by (simp add: rf)
  show ?thesis
  proof (cases "catchment_files = []")
    case True
    with assms(1) 1 have "d' = d1" by (simp add: raster_inserts_def)
    with t1 True show ?thesis by simp
  next
    case False
    with assms(1) 1 have 2: "insert_catchment_rasters self env catchment_files
        (generate_uuid self env f # map (generate_uuid self env) fs) d1 = Inr d'"
      by (auto simp: raster_inserts_def ids split: sum.splits)
    note t2 = insert_catchment_rasters_tables[OF 2]
    with t1 show ?thesis by (simp add: rf)
  qed
qed

lemma load_rasters_tables:
  "load_rasters self env dir cid d = (l, Inr d') \<Longrightarrow>
     Catchments d' = Catchments d \<and> Hydrotables d' = Hydrotables d
     \<and> NWM_Features d' = NWM_Features d \<and> Hand_Versions d' = Hand_Versions d"
  by (auto simp: load_rasters_def split: sum.splits if_splits prod.splits
      dest!: raster_inserts_tables)

lemma load_catchment_geometry_Some:
  "load_catchment_geometry self env dir d = (l, Inr (Some cid, d1)) \<Longrightarrow>
     \<exists>g. d1 = d\<lparr>Catchments := Catchments d @
              [\<lparr>c_catchment_id = cid, c_hand_version_id = hand_version_id self,
                c_geometry = g\<rparr>]\<rparr>"
  by (auto simp: load_catchment_geometry_def Let_def execute_def
      split: sum.splits if_splits prod.splits option.splits)

lemma cleanup_catchment_Some:
  "cleanup_catchment self env (Some cid) d = (l, Inr d') \<Longrightarrow> d' = purge self cid d"
  by (auto simp: cleanup_catchment_def execute_def purge_def split: sum.splits if_splits)

lemma cleanup_catchment_keeps_other_rows:
  assumes "cleanup_catchment self env (Some cid) d = (l, Inr d')"
  shows "filter (\<lambda>r. \<not> (c_catchment_id r = cid \<and> c_hand_version_id r = hand_version_id self))
           (Catchments d') =
         filter (\<lambda>r. \<not> (c_catchment_id r = cid \<and> c_hand_version_id r = hand_version_id self))
           (Catchments d) \<and>
         filter (\<lambda>r. \<not> (h_catchment_id r = cid \<and> h_hand_version_id r = hand_version_id self))
           (Hydrotables d') =
         filter (\<lambda>r. \<not> (h_catchment_id r = cid \<and> h_hand_version_id r = hand_version_id self))
           (Hydrotables d) \<and>
         filter (\<lambda>r. \<not> (r_catchment_id r = cid \<and> r_hand_version_id r = hand_version_id self))
           (HAND_REM_Rasters d') =
         filter (\<lambda>r. \<not> (r_catchment_id r = cid \<and> r_hand_version_id r = hand_version_id self))
           (HAND_REM_Rasters d) \<and>
         HAND_Catchment_Rasters d' = HAND_Catchment_Rasters d \<and>
         NWM_Features d' = NWM_Features d \<and> Hand_Versions d' = Hand_Versions d"
  using cleanup_catchment_Some[OF assms] by (simp add: purge_def)

lemma cleanup_catchment_msgs:
  "cleanup_catchment self env (Some cid) d = (l, r) \<Longrightarrow> l = [Cleaning_up cid]"
  by (auto simp: cleanup_catchment_def)

section \<open>Atomicity of a catchment's load\<close>

lemma visible_rows_purge: "visible_rows self cid (purge self cid d) = (0, 0, 0)"
  by (simp add: visible_rows_def purge_def)

lemma purge_subset:
  "set (Catchments (purge self cid d)) \<subseteq> set (Catchments d)"
  "set (Hydrotables (purge self cid d)) \<subseteq> set (Hydrotables d)"
  "set (HAND_REM_Rasters (purge self cid d)) \<subseteq> set (HAND_REM_Rasters d)"
  "HAND_Catchment_Rasters (purge self cid d) = HAND_Catchment_Rasters d"
  by (auto simp: purge_def)

lemma process_catchment_abort:
  assumes "catchment_transaction self env dir v d = (l0, Bound (Some cid), Inl e)"
    and "process_catchment self env idx n dir (d, v) = (l, d', v', r)"
  shows "v' = Bound (Some cid) \<and> ((r \<noteq> None \<and> d' = d) \<or> (r = None \<and> d' = purge self cid d))"
  using assms
  by (auto simp: process_catchment_def split: sum.splits prod.splits dest: cleanup_catchment_Some)

text \<open>
  C1. When the Catchments row of a unit has been inserted and hydrotable loading or raster
  loading then raises, the iteration leaves no write of that unit behind: every table
  holds only rows it held before the unit was processed, the catchment-raster table is
  as it was, and no Catchments, Hydrotables or HAND_REM_Rasters row with the unit's
  catchment identifier and the loader's hand version is visible afterwards, provided the
  cleanup pass completed or no such row was there before the unit was processed.
\<close>

theorem C1_abort_rolls_back:
  assumes geom: "load_catchment_geometry self env dir d = (l1, Inr (Some cid, d1))"
    and fail: "load_hydrotables self env dir cid d1 = (l2, Inl e) \<or>
               (\<exists>d2 l3. load_hydrotables self env dir cid d1 = (l2, Inr d2) \<and>
                  load_rasters self env dir cid d2 = (l3, Inl e))"
    and run: "process_catchment self env idx n dir (d, v) = (l, d', v', r)"
  shows "set (Catchments d') \<subseteq> set (Catchments d) \<and>
         set (Hydrotables d') \<subseteq> set (Hydrotables d) \<and>
         set (HAND_REM_Rasters d') \<subseteq> set (HAND_REM_Rasters d) \<and>
         HAND_Catchment_Rasters d' = HAND_Catchment_Rasters d \<and>
         (r = None \<or> visible_rows self cid d = (0, 0, 0) \<longrightarrow>
            visible_rows self cid d' = (0, 0, 0))"
proof -
  from geom fail obtain l0 where
    "catchment_transaction self env dir v d = (l0, Bound (Some cid), Inl e)"
    by (auto simp: catchment_transaction_def)
  from process_catchment_abort[OF this run]
  have "(r \<noteq> None \<and> d' = d) \<or> (r = None \<and> d' = purge self cid d)" by simp
  then show ?thesis
    using purge_subset[of self cid d] visible_rows_purge[of self cid d] by auto
qed

theorem C1_abort_rolls_back_witness:
  "load_catchment_geometry demo_loader demo_env ''/hand/12345678/branches/1'' empty_db =
     ([Loading_catchment_geometry],
      Inr (Some ''uuid5:POLYGON ((2 2, 3 2, 3 3, 2 2))'', demo_db1)) \<and>
   load_hydrotables demo_loader demo_env ''/hand/12345678/branches/1''
     ''uuid5:POLYGON ((2 2, 3 2, 3 3, 2 2))'' demo_db1 =
     ([Loading_hydrotables,
       Error_processing_hydrotable ''/hand/12345678/branches/1/hydroTable_1.csv''
         (DatabaseError ''statement rejected'')],
      Inl (DatabaseError ''statement rejected'')) \<and>
   fst (snd (process_catchment demo_loader demo_env 2 5 ''/hand/12345678/branches/1''
     (empty_db, Unbound))) = empty_db \<and>
   visible_rows demo_loader ''uuid5:POLYGON ((2 2, 3 2, 3 3, 2 2))''
     (fst (snd (process_catchment demo_loader demo_env 2 5 ''/hand/12345678/branches/1''
        (empty_db, Unbound)))) = (0, 0, 0)"
proof -
  have geom: "load_catchment_geometry demo_loader demo_env ''/hand/12345678/branches/1'' empty_db =
     ([Loading_catchment_geometry],
      Inr (Some ''uuid5:POLYGON ((2 2, 3 2, 3 3, 2 2))'', demo_db1))"
    by code_simp
  have fail: "load_hydrotables demo_loader demo_env ''/hand/12345678/branches/1''
     ''uuid5:POLYGON ((2 2, 3 2, 3 3, 2 2))'' demo_db1 =
     ([Loading_hydrotables,
       Error_processing_hydrotable ''/hand/12345678/branches/1/hydroTable_1.csv''
         (DatabaseError ''statement rejected'')],
      Inl (DatabaseError ''statement rejected''))"
    by code_simp
  have run: "process_catchment demo_loader demo_env 2 5 ''/hand/12345678/branches/1''
     (empty_db, Unbound) =
     ([Processing_catchment 2 5 ''/hand/12345678/branches/1'',
       Loading_catchment_geometry, Loading_hydrotables,
       Error_processing_hydrotable ''/hand/12345678/branches/1/hydroTable_1.csv''
         (DatabaseError ''statement rejected''),
       Error_processing_catchment ''/hand/12345678/branches/1''
         (DatabaseError ''statement rejected''),
       Cleaning_up ''uuid5:POLYGON ((2 2, 3 2, 3 3, 2 2))''],
      empty_db, Bound (Some ''uuid5:POLYGON ((2 2, 3 2, 3 3, 2 2))''), None)"
    by code_simp
  from C1_abort_rolls_back[OF geom disjI1[OF fail] run]
  have "visible_rows demo_loader ''uuid5:POLYGON ((2 2, 3 2, 3 3, 2 2))'' empty_db = (0, 0, 0)"
    by simp
  with geom fail run show ?thesis by simp
qed

section \<open>Units without geometry\<close>

lemma geometry_file_step_no_geometry:
  "no_geometry_in env gpkg \<Longrightarrow>
     geometry_file_step env gpkg acc = Inr acc \<or> (\<exists>e. geometry_file_step env gpkg acc = Inl e)"
  by (auto simp: no_geometry_in_def geometry_file_step_def split: sum.splits)

lemma merge_files_no_geometry:
  "list_all (no_geometry_in env) files \<Longrightarrow> snd (merge_files env files acc) = acc"
proof (induction files)
  case Nil then show ?case by simp
next
  case (Cons f files)
  then show ?case
    using geometry_file_step_no_geometry[of env f acc]
    by (auto split: sum.splits prod.splits)
qed

lemma merge_files_log: "\<not> list_ex failure_report (fst (merge_files env files acc))"
proof (induction files arbitrary: acc)
  case Nil then show ?case by simp
next
  case (Cons f files)
  show ?case
  proof (cases "geometry_file_step env f acc")
    case (Inl e)
    with Cons[of acc] show ?thesis by (cases "merge_files env files acc") auto
  next
    case (Inr m)
    with Cons[of m] show ?thesis by simp
  qed
qed

lemma load_catchment_geometry_None:
  assumes "get_files env dir ''.gpkg'' ''gw_catchments'' = Inr files"
    and "list_all (no_geometry_in env) files"
  shows "load_catchment_geometry self env dir d = (geometry_log env files, Inr (None, d))"
proof -
  from merge_files_no_geometry[OF assms(2), of None]
  obtain l where "merge_files env files None = (l, None)"
    by (cases "merge_files env files None") auto
  with assms(1) show ?thesis
    by (simp add: load_catchment_geometry_def geometry_log_def)
qed

text \<open>
  C6. A unit whose listing yields no geometry file, or only files that cannot be fetched
  or read or are empty, gives \<open>None\<close> from \<open>load_catchment_geometry\<close> and leaves every
  table as it was; the iteration prints the skip line and neither the error line nor the
  cleanup line, raises nothing, and the batch goes on with the next unit.
\<close>

theorem C6_no_geometry_skips:
  assumes files: "get_files env dir ''.gpkg'' ''gw_catchments'' = Inr files"
    and none: "list_all (no_geometry_in env) files"
  shows "load_catchment_geometry self env dir d = (geometry_log env files, Inr (None, d)) \<and>
         process_catchment self env idx n dir (d, v) =
           (Processing_catchment idx n dir # geometry_log env files @ [Skipping_catchment dir],
            d, Bound None, None) \<and>
         \<not> list_ex failure_report (geometry_log env files) \<and>
         process_catchments self env idx n (dir # rest) (d, v) =
           (case process_catchments self env (idx + 1) n rest (d, Bound None) of
              (l2, r) \<Rightarrow>
                ((Processing_catchment idx n dir # geometry_log env files
                    @ [Skipping_catchment dir]) @ l2, r))"
proof -
  note g = load_catchment_geometry_None[OF files none, of self d]
  have p: "process_catchment self env idx n dir (d, v) =
           (Processing_catchment idx n dir # geometry_log env files @ [Skipping_catchment dir],
            d, Bound None, None)"
    by (simp add: process_catchment_def catchment_transaction_def g)
  have f: "\<not> list_ex failure_report (geometry_log env files)"
    using merge_files_log[of env files None] by (simp add: geometry_log_def)
  have "process_catchments self env idx n (dir # rest) (d, v) =
           (case process_catchments self env (idx + 1) n rest (d, Bound None) of
              (l2, r) \<Rightarrow>
                ((Processing_catchment idx n dir # geometry_log env files
                    @ [Skipping_catchment dir]) @ l2, r))"
    by (simp add: p)
  with g p f show ?thesis by blast
qed

theorem C6_no_geometry_skips_witness:
  "process_catchment demo_loader demo_env 3 6 ''/hand/12345678/branches/2'' (empty_db, Unbound) =
     ([Processing_catchment 3 6 ''/hand/12345678/branches/2'', Loading_catchment_geometry,
       No_geometry_files_found, Skipping_catchment ''/hand/12345678/branches/2''],
      empty_db, Bound None, None) \<and>
   process_catchment demo_loader demo_env 6 6 ''/hand/12345678/branches/5'' (empty_db, Unbound) =
     ([Processing_catchment 6 6 ''/hand/12345678/branches/5'', Loading_catchment_geometry,
       Error_processing_geometry_file ''/hand/12345678/branches/5/gw_catchments_5.gpkg''
         (ReadError ''/hand/12345678/branches/5/gw_catchments_5.gpkg''),
       Skipping_catchment ''/hand/12345678/branches/5''],
      empty_db, Bound None, None)"
proof -
  have f2: "get_files demo_env ''/hand/12345678/branches/2'' ''.gpkg'' ''gw_catchments'' = Inr []"
    by code_simp
  have n2: "list_all (no_geometry_in demo_env) []" by simp
  have f5: "get_files demo_env ''/hand/12345678/branches/5'' ''.gpkg'' ''gw_catchments'' =
      Inr [''/hand/12345678/branches/5/gw_catchments_5.gpkg'']"
    by code_simp
  have n5: "list_all (no_geometry_in demo_env)
      [''/hand/12345678/branches/5/gw_catchments_5.gpkg'']"
    by code_simp
  have g2: "geometry_log demo_env [] = [Loading_catchment_geometry, No_geometry_files_found]"
    by (simp add: geometry_log_def)
  have g5: "geometry_log demo_env [''/hand/12345678/branches/5/gw_catchments_5.gpkg''] =
      [Loading_catchment_geometry,
       Error_processing_geometry_file ''/hand/12345678/branches/5/gw_catchments_5.gpkg''
         (ReadError ''/hand/12345678/branches/5/gw_catchments_5.gpkg'')]"
    by code_simp
  from C6_no_geometry_skips[OF f2 n2, of demo_loader empty_db 3 6 Unbound "[]"]
       C6_no_geometry_skips[OF f5 n5, of demo_loader empty_db 6 6 Unbound "[]"]
  show ?thesis by (simp add: g2 g5)
qed

section \<open>Raster references\<close>

text \<open>
  C7 as stated fails: unit 4 has a catchment raster file and no REM raster file, and
  \<open>load_rasters\<close> returns without inserting a HAND_Catchment_Rasters row for it.
\<close>

theorem C7_counterexample:
  "get_files demo_env ''/hand/12345678/branches/4'' ''.tif'' ''gw_catchments'' =
     Inr [''/hand/12345678/branches/4/gw_catchments_4.tif''] \<and>
   load_rasters demo_loader demo_env ''/hand/12345678/branches/4'' ''c4'' empty_db =
     ([Loading_REM_rasters, No_REM_raster_files_found], Inr empty_db) \<and>
   HAND_Catchment_Rasters empty_db = []"
  by code_simp

text \<open>
  C7, amended. For a unit with at least one REM raster file, a \<open>load_rasters\<close> that
  returns has appended one HAND_REM_Rasters row per REM file, identified by the
  deterministic identifier of the file path, and one HAND_Catchment_Rasters row per
  catchment raster file, each linked to the identifier of the first REM file; the other
  catchment-scoped tables are unchanged.
\<close>

theorem C7_rasters_linked_to_first_rem:
  assumes rem: "get_files env dir ''.tif'' ''rem_zeroed_'' = Inr rem_files"
    and some: "rem_files \<noteq> []"
    and cat: "get_files env dir ''.tif'' ''gw_catchments'' = Inr catchment_files"
    and run: "load_rasters self env dir cid d = (l, Inr d')"
  shows "HAND_REM_Rasters d' = HAND_REM_Rasters d @
           map (\<lambda>f. \<lparr>r_rem_raster_id = generate_uuid self env f, r_catchment_id = cid,
                      r_hand_version_id = hand_version_id self, r_raster_path = f\<rparr>) rem_files \<and>
         HAND_Catchment_Rasters d' = HAND_Catchment_Rasters d @
           map (\<lambda>f. \<lparr>cr_catchment_raster_id = generate_uuid self env f,
                      cr_rem_raster_id = generate_uuid self env (hd rem_files),
                      cr_raster_path = f\<rparr>) catchment_files \<and>
         Catchments d' = Catchments d \<and> Hydrotables d' = Hydrotables d"
proof -
  from run rem some cat obtain l' where
    "raster_inserts self env rem_files catchment_files cid d = (l', Inr d')"
    by (auto simp: load_rasters_def split: sum.splits prod.splits)
  from raster_inserts_tables[OF this some] show ?thesis by simp
qed

theorem C7_rasters_linked_to_first_rem_witness:
  "load_rasters demo_loader demo_env ''/hand/12345678/branches/0'' ''c0'' empty_db =
     ([Loading_REM_rasters, Loading_catchment_rasters], Inr demo_db0) \<and>
   HAND_REM_Rasters demo_db0 =
     [\<lparr>r_rem_raster_id =
         generate_uuid demo_loader demo_env ''/hand/12345678/branches/0/rem_zeroed_0.tif'',
       r_catchment_id = ''c0'', r_hand_version_id = ''v3.0'',
       r_raster_path = ''/hand/12345678/branches/0/rem_zeroed_0.tif''\<rparr>] \<and>
   HAND_Catchment_Rasters demo_db0 =
     [\<lparr>cr_catchment_raster_id =
         generate_uuid demo_loader demo_env ''/hand/12345678/branches/0/gw_catchments_0.tif'',
       cr_rem_raster_id =
         generate_uuid demo_loader demo_env ''/hand/12345678/branches/0/rem_zeroed_0.tif'',
       cr_raster_path = ''/hand/12345678/branches/0/gw_catchments_0.tif''\<rparr>]"
proof -
  have rem: "get_files demo_env ''/hand/12345678/branches/0'' ''.tif'' ''rem_zeroed_'' =
      Inr [''/hand/12345678/branches/0/rem_zeroed_0.tif'']"
    by code_simp
  have some: "[''/hand/12345678/branches/0/rem_zeroed_0.tif''] \<noteq> []" by simp
  have cat: "get_files demo_env ''/hand/12345678/branches/0'' ''.tif'' ''gw_catchments'' =
      Inr [''/hand/12345678/branches/0/gw_catchments_0.tif'']"
    by code_simp
  have run: "load_rasters demo_loader demo_env ''/hand/12345678/branches/0'' ''c0'' empty_db =
     ([Loading_REM_rasters, Loading_catchment_rasters], Inr demo_db0)"
    by code_simp
  have e: "HAND_REM_Rasters empty_db = []" "HAND_Catchment_Rasters empty_db = []"
    "hand_version_id demo_loader = ''v3.0''"
    by (simp_all add: empty_db_def demo_loader_def)
  from C7_rasters_linked_to_first_rem[OF rem some cat run] run show ?thesis
    by (simp add: e)
qed

text \<open>
  C9. With no REM raster file listed, \<open>load_rasters\<close> returns at once with the tables
  unchanged, whatever catchment raster files there are; and whenever \<open>load_rasters\<close>
  returns with the catchment-raster table changed, it has also added a HAND_REM_Rasters
  row.
\<close>

theorem C9_no_rem_no_catchment_raster:
  "(get_files env dir ''.tif'' ''rem_zeroed_'' = Inr [] \<longrightarrow>
      load_rasters self env dir cid d =
        ([Loading_REM_rasters, No_REM_raster_files_found], Inr d)) \<and>
   (load_rasters self env dir cid d = (l, Inr d') \<and>
      HAND_Catchment_Rasters d' \<noteq> HAND_Catchment_Rasters d \<longrightarrow>
      length (HAND_REM_Rasters d) < length (HAND_REM_Rasters d'))"
proof -
  have a: "get_files env dir ''.tif'' ''rem_zeroed_'' = Inr [] \<longrightarrow>
      load_rasters self env dir cid d =
        ([Loading_REM_rasters, No_REM_raster_files_found], Inr d)"
    by (simp add: load_rasters_def)
  have b: "length (HAND_REM_Rasters d) < length (HAND_REM_Rasters d')"
    if r: "load_rasters self env dir cid d = (l, Inr d')"
      and ne: "HAND_Catchment_Rasters d' \<noteq> HAND_Catchment_Rasters d"
  proof -
    from r obtain rem_files where rf: "get_files env dir ''.tif'' ''rem_zeroed_'' = Inr rem_files"
      by (auto simp: load_rasters_def split: sum.splits)
    show ?thesis
    proof (cases "rem_files = []")
      case True
      with r rf ne show ?thesis by (simp add: load_rasters_def)
    next
      case False
      with r rf obtain cf l' where "raster_inserts self env rem_files cf cid d = (l', Inr d')"
        by (auto simp: load_rasters_def split: sum.splits prod.splits)
      from raster_inserts_tables[OF this False] False show ?thesis by simp
    qed
  qed
  from a b show ?thesis by blast
qed

theorem C9_no_rem_no_catchment_raster_witness:
  "load_rasters demo_loader demo_env ''/hand/12345678/branches/4'' ''c4'' empty_db =
     ([Loading_REM_rasters, No_REM_raster_files_found], Inr empty_db) \<and>
   length (HAND_REM_Rasters empty_db) < length (HAND_REM_Rasters demo_db0)"
proof -
  have norem: "get_files demo_env ''/hand/12345678/branches/4'' ''.tif'' ''rem_zeroed_'' = Inr []"
    by code_simp
  have run: "load_rasters demo_loader demo_env ''/hand/12345678/branches/0'' ''c0'' empty_db =
     ([Loading_REM_rasters, Loading_catchment_rasters], Inr demo_db0)"
    by code_simp
  have ne: "HAND_Catchment_Rasters demo_db0 \<noteq> HAND_Catchment_Rasters empty_db"
    by (simp add: demo_db0_def empty_db_def)
  from C9_no_rem_no_catchment_raster[of demo_env "''/hand/12345678/branches/4''" demo_loader
         "''c4''" empty_db "[]" empty_db]
       C9_no_rem_no_catchment_raster[of demo_env "''/hand/12345678/branches/0''" demo_loader
         "''c0''" empty_db "[Loading_REM_rasters, Loading_catchment_rasters]" demo_db0]
       norem run ne
  show ?thesis by blast
qed

section \<open>Units without rating tables\<close>

text \<open>
  C10. For a unit whose geometry was inserted and whose listing has no rating-table file,
  \<open>load_hydrotables\<close> returns normally with the tables untouched, the transaction goes
  on to \<open>load_rasters\<close> and has exactly its outcome; when raster loading returns, the
  iteration commits with the one new Catchments row and no new Hydrotables row.
\<close>

theorem C10_no_hydrotables_is_no_failure:
  assumes geom: "load_catchment_geometry self env dir d = (l1, Inr (Some cid, d1))"
    and nocsv: "get_files env dir ''.csv'' ''hydroTable_'' = Inr []"
  shows "load_hydrotables self env dir cid d1 =
           ([Loading_hydrotables, No_hydrotable_files_found], Inr d1) \<and>
         catchment_transaction self env dir v d =
           (case load_rasters self env dir cid d1 of
              (l3, r) \<Rightarrow>
                (l1 @ [Loading_hydrotables, No_hydrotable_files_found] @ l3,
                 Bound (Some cid), r)) \<and>
         (\<forall>l3 d3. load_rasters self env dir cid d1 = (l3, Inr d3) \<longrightarrow>
            process_catchment self env idx n dir (d, v) =
              (Processing_catchment idx n dir # l1
                 @ [Loading_hydrotables, No_hydrotable_files_found] @ l3,
               d3, Bound (Some cid), None) \<and>
            (\<exists>g. Catchments d3 = Catchments d @
               [\<lparr>c_catchment_id = cid, c_hand_version_id = hand_version_id self,
                 c_geometry = g\<rparr>]) \<and>
            Hydrotables d3 = Hydrotables d)"
proof -
  have h: "load_hydrotables self env dir cid d1 =
           ([Loading_hydrotables, No_hydrotable_files_found], Inr d1)"
    using nocsv by (simp add: load_hydrotables_def)
  have t: "catchment_transaction self env dir v d =
           (case load_rasters self env dir cid d1 of
              (l3, r) \<Rightarrow>
                (l1 @ [Loading_hydrotables, No_hydrotable_files_found] @ l3,
                 Bound (Some cid), r))"
    by (simp add: catchment_transaction_def geom h split: prod.splits sum.splits)
  have c: "process_catchment self env idx n dir (d, v) =
              (Processing_catchment idx n dir # l1
                 @ [Loading_hydrotables, No_hydrotable_files_found] @ l3,
               d3, Bound (Some cid), None) \<and>
            (\<exists>g. Catchments d3 = Catchments d @
               [\<lparr>c_catchment_id = cid, c_hand_version_id = hand_version_id self,
                 c_geometry = g\<rparr>]) \<and>
            Hydrotables d3 = Hydrotables d"
    if r: "load_rasters self env dir cid d1 = (l3, Inr d3)" for l3 d3
  proof -
    from load_catchment_geometry_Some[OF geom] obtain g where
      d1: "d1 = d\<lparr>Catchments := Catchments d @
              [\<lparr>c_catchment_id = cid, c_hand_version_id = hand_version_id self,
                c_geometry = g\<rparr>]\<rparr>" by blast
    from load_rasters_tables[OF r] d1 have
      "Catchments d3 = Catchments d @
         [\<lparr>c_catchment_id = cid, c_hand_version_id = hand_version_id self, c_geometry = g\<rparr>]"
      "Hydrotables d3 = Hydrotables d" by simp_all
    moreover have "process_catchment self env idx n dir (d, v) =
              (Processing_catchment idx n dir # l1
                 @ [Loading_hydrotables, No_hydrotable_files_found] @ l3,
               d3, Bound (Some cid), None)"
      by (simp add: process_catchment_def t r)
    ultimately show ?thesis by blast
  qed
  from h t c show ?thesis by blast
qed

theorem C10_no_hydrotables_is_no_failure_witness:
  "load_hydrotables demo_loader demo_env ''/hand/12345678/branches/3''
     ''uuid5:POLYGON ((4 4, 5 4, 5 5, 4 4))'' demo_db3 =
     ([Loading_hydrotables, No_hydrotable_files_found], Inr demo_db3) \<and>
   process_catchment demo_loader demo_env 4 6 ''/hand/12345678/branches/3'' (empty_db, Unbound) =
     ([Processing_catchment 4 6 ''/hand/12345678/branches/3'', Loading_catchment_geometry,
       Loading_hydrotables, No_hydrotable_files_found, Loading_REM_rasters,
       Loading_catchment_rasters, No_catchment_raster_files_found],
      demo_db3\<lparr>HAND_REM_Rasters :=
        [\<lparr>r_rem_raster_id = ''uuid5:/hand/12345678/branches/3/rem_zeroed_3.tif'',
          r_catchment_id = ''uuid5:POLYGON ((4 4, 5 4, 5 5, 4 4))'',
          r_hand_version_id = ''v3.0'',
          r_raster_path = ''/hand/12345678/branches/3/rem_zeroed_3.tif''\<rparr>]\<rparr>,
      Bound (Some ''uuid5:POLYGON ((4 4, 5 4, 5 5, 4 4))''), None)"
proof -
  have geom: "load_catchment_geometry demo_loader demo_env ''/hand/12345678/branches/3'' empty_db =
     ([Loading_catchment_geometry],
      Inr (Some ''uuid5:POLYGON ((4 4, 5 4, 5 5, 4 4))'', demo_db3))"
    by code_simp
  have nocsv: "get_files demo_env ''/hand/12345678/branches/3'' ''.csv'' ''hydroTable_'' = Inr []"
    by code_simp
  have rast: "load_rasters demo_loader demo_env ''/hand/12345678/branches/3''
      ''uuid5:POLYGON ((4 4, 5 4, 5 5, 4 4))'' demo_db3 =
     ([Loading_REM_rasters, Loading_catchment_rasters, No_catchment_raster_files_found],
      Inr (demo_db3\<lparr>HAND_REM_Rasters :=
        [\<lparr>r_rem_raster_id = ''uuid5:/hand/12345678/branches/3/rem_zeroed_3.tif'',
          r_catchment_id = ''uuid5:POLYGON ((4 4, 5 4, 5 5, 4 4))'',
          r_hand_version_id = ''v3.0'',
          r_raster_path = ''/hand/12345678/branches/3/rem_zeroed_3.tif''\<rparr>]\<rparr>))"
    by code_simp
  from C10_no_hydrotables_is_no_failure[OF geom nocsv, of Unbound 4 6] rast
  show ?thesis by simp
qed

section \<open>Discovery of catchment units\<close>

lemma join_sep_nonempty: "x \<in> set xs \<Longrightarrow> x \<noteq> [] \<Longrightarrow> join_sep sep xs \<noteq> []"
  by (induction sep xs rule: join_sep.induct) auto

lemma huc_path_nonempty:
  assumes "i < length parts" and "length (parts ! i) = 8"
  shows "join_sep sep (take (i + 3) parts) \<noteq> []"
proof -
  have "i < length (take (i + 3) parts)" using assms(1) by simp
  then have "take (i + 3) parts ! i \<in> set (take (i + 3) parts)" by (rule nth_mem)
  then have "parts ! i \<in> set (take (i + 3) parts)" by simp
  moreover have "parts ! i \<noteq> []" using assms(2) by auto
  ultimately show ?thesis by (rule join_sep_nonempty)
qed

lemma set_key_catchment_paths:
  "set (key_catchment_paths obj) =
     {join_sep ''/'' (take (i + 3) (split_sep CHR ''/'' obj)) | i.
        i + 2 < length (split_sep CHR ''/'' obj) \<and>
        isdigit (split_sep CHR ''/'' obj ! i) \<and> length (split_sep CHR ''/'' obj ! i) = 8 \<and>
        split_sep CHR ''/'' obj ! (i + 1) = ''branches''}"
  (is "?L = ?R")
proof
  show "?L \<subseteq> ?R"
    by (auto simp: key_catchment_paths_def Let_def huc_branch_at_def)
  show "?R \<subseteq> ?L"
  proof
    fix p assume "p \<in> ?R"
    then obtain i where i: "p = join_sep ''/'' (take (i + 3) (split_sep CHR ''/'' obj))"
      "i + 2 < length (split_sep CHR ''/'' obj)"
      "isdigit (split_sep CHR ''/'' obj ! i)" "length (split_sep CHR ''/'' obj ! i) = 8"
      "split_sep CHR ''/'' obj ! (i + 1) = ''branches''" by blast
    have ne: "p \<noteq> []" unfolding i(1) using i(2,4) by (intro huc_path_nonempty) auto
    have "i \<in> set (filter (huc_branch_at (split_sep CHR ''/'' obj))
            [0 ..< length (split_sep CHR ''/'' obj) - 2])"
      using i by (auto simp: huc_branch_at_def)
    with ne i(1) show "p \<in> ?L"
      by (auto simp: key_catchment_paths_def Let_def)
  qed
qed

lemma key_catchment_paths_spec:
  "(key_catchment_paths obj \<noteq> []) = spec_qualifies (split_sep CHR ''/'' obj)"
proof -
  let ?parts = "split_sep CHR ''/'' obj"
  have a: "(key_catchment_paths obj \<noteq> []) =
      (\<exists>i. i + 2 < length ?parts \<and> isdigit (?parts ! i) \<and> length (?parts ! i) = 8 \<and>
         ?parts ! (i + 1) = ''branches'')"
  proof -
    have "(key_catchment_paths obj \<noteq> []) = (set (key_catchment_paths obj) \<noteq> {})" by simp
    also have "\<dots> = (\<exists>i. i + 2 < length ?parts \<and> isdigit (?parts ! i) \<and>
         length (?parts ! i) = 8 \<and> ?parts ! (i + 1) = ''branches'')"
      unfolding set_key_catchment_paths by blast
    finally show ?thesis .
  qed
  have b: "spec_qualifies ?parts =
      (\<exists>i. i < length ?parts - 2 \<and> isdigit (?parts ! i) \<and> length (?parts ! i) = 8 \<and>
         ?parts ! (i + 1) = ''branches'')"
    by (simp add: spec_qualifies_def list_ex_iff Bex_def)
  have c: "\<And>i. (i < length ?parts - 2) = (i + 2 < length ?parts)" by arith
  show ?thesis unfolding a b c ..
qed

lemma set_branch_dirs:
  "branch_dirs env base ds = Inr r \<Longrightarrow>
   set r = {path_join (path_join (path_join base d) ''branches'') cd | d cd cds.
      d \<in> set ds \<and> e_isdir env (path_join base d) \<and> isdigit d \<and> length d = 8 \<and>
      e_isdir env (path_join (path_join base d) ''branches'') \<and>
      e_listdir env (path_join (path_join base d) ''branches'') = Inr cds \<and> cd \<in> set cds \<and>
      e_isdir env (path_join (path_join (path_join base d) ''branches'') cd)}"
proof (induction ds arbitrary: r)
  case Nil
  then show ?case by simp
next
  case (Cons d ds)
  let ?b = "path_join (path_join base d) ''branches''"
  let ?ok = "e_isdir env (path_join base d) \<and> isdigit d \<and> length d = 8 \<and> e_isdir env ?b"
  show ?case
  proof (cases ?ok)
    case False
    with Cons.prems have "branch_dirs env base ds = Inr r" by (auto simp: Let_def)
    from Cons.IH[OF this] False show ?thesis by auto
  next
    case True
    with Cons.prems obtain cds rest where
      l: "e_listdir env ?b = Inr cds" and
      b: "branch_dirs env base ds = Inr rest" and
      r: "r = map (path_join ?b) (filter (\<lambda>cd. e_isdir env (path_join ?b cd)) cds) @ rest"
      by (auto simp: Let_def split: sum.splits)
    from Cons.IH[OF b] True l show ?thesis unfolding r by auto
  qed
qed

lemma remote_dirs:
  assumes "is_s3_path base" and "list_s3_objects env base = Inr objects"
  shows "\<exists>r. get_catchment_dirs env base = Inr r \<and> distinct r \<and>
     set r = {''s3://'' @ fst (parse_s3_path base) @ ''/'' @
                join_sep ''/'' (take (i + 3) (split_sep CHR ''/'' obj)) | obj i.
        obj \<in> set objects \<and> i + 2 < length (split_sep CHR ''/'' obj) \<and>
        isdigit (split_sep CHR ''/'' obj ! i) \<and> length (split_sep CHR ''/'' obj ! i) = 8 \<and>
        split_sep CHR ''/'' obj ! (i + 1) = ''branches''}"
proof -
  let ?f = "\<lambda>d. ''s3://'' @ fst (parse_s3_path base) @ ''/'' @ d"
  let ?ps = "remdups (concat (map key_catchment_paths objects))"
  have g: "get_catchment_dirs env base = Inr (map ?f ?ps)"
    using assms by (simp add: get_catchment_dirs_def)
  have "inj_on ?f (set ?ps)" by (rule inj_onI) simp
  then have d: "distinct (map ?f ?ps)" by (simp add: distinct_map)
  have "set (map ?f ?ps) = ?f ` (\<Union>obj\<in>set objects. set (key_catchment_paths obj))"
    by simp
  also have "\<dots> = {?f (join_sep ''/'' (take (i + 3) (split_sep CHR ''/'' obj))) | obj i.
        obj \<in> set objects \<and> i + 2 < length (split_sep CHR ''/'' obj) \<and>
        isdigit (split_sep CHR ''/'' obj ! i) \<and> length (split_sep CHR ''/'' obj ! i) = 8 \<and>
        split_sep CHR ''/'' obj ! (i + 1) = ''branches''}"
    unfolding set_key_catchment_paths by blast
  finally show ?thesis using g d by blast
qed

lemma example_both:
  "get_catchment_dirs example_env ''/root'' = Inr [''/root/12345678/branches/unitA''] \<and>
   get_catchment_dirs example_env ''s3://bucket/root'' =
     Inr [''s3://bucket/root/12345678/branches/unitA'']"
  by code_simp

text \<open>
  C4 as stated fails for the local backend, which does not descend below the root: with
  the region directory one level down, the unit directory exists and its path has an
  8-digit segment followed by \<open>branches\<close> and a further segment, yet the local branch
  finds nothing, while the remote branch finds the unit in the same tree.
\<close>

theorem C4_counterexample:
  "nested_isdir ''/data/region/12345678/branches/unitA'' \<and>
   spec_qualifies (split_sep CHR ''/'' ''/data/region/12345678/branches/unitA'') \<and>
   get_catchment_dirs nested_env ''/data'' = Inr [] \<and>
   get_catchment_dirs nested_env ''s3://bucket/data'' =
     Inr [''s3://bucket/data/region/12345678/branches/unitA'']"
  by code_simp

text \<open>
  C4, amended. Under the remote backend the units are, without repetition, the first
  \<open>i + 3\<close> segments of every listed key that has an 8-digit segment \<open>i\<close> followed by
  \<open>branches\<close> and at least one further segment, so a key yields a unit exactly when it
  qualifies in the words of the specification. Under the local backend the units are
  exactly the directories \<open>root/d/branches/cd\<close> with \<open>d\<close> an 8-digit name listed in the
  root itself and \<open>root/d\<close>, \<open>root/d/branches\<close> and the unit all directories. For the
  tree of the example both backends find unitA only.
\<close>

theorem C4_discovery_by_backend:
  "(is_s3_path base \<and> list_s3_objects env base = Inr objects \<longrightarrow>
      (\<exists>r. get_catchment_dirs env base = Inr r \<and> distinct r \<and>
         set r = {''s3://'' @ fst (parse_s3_path base) @ ''/'' @
                    join_sep ''/'' (take (i + 3) (split_sep CHR ''/'' obj)) | obj i.
            obj \<in> set objects \<and> i + 2 < length (split_sep CHR ''/'' obj) \<and>
            isdigit (split_sep CHR ''/'' obj ! i) \<and>
            length (split_sep CHR ''/'' obj ! i) = 8 \<and>
            split_sep CHR ''/'' obj ! (i + 1) = ''branches''})) \<and>
   (key_catchment_paths key \<noteq> []) = spec_qualifies (split_sep CHR ''/'' key) \<and>
   (\<not> is_s3_path base \<and> e_listdir env base = Inr ds \<and>
    get_catchment_dirs env base = Inr r' \<longrightarrow>
      set r' = {path_join (path_join (path_join base d) ''branches'') cd | d cd cds.
         d \<in> set ds \<and> e_isdir env (path_join base d) \<and> isdigit d \<and> length d = 8 \<and>
         e_isdir env (path_join (path_join base d) ''branches'') \<and>
         e_listdir env (path_join (path_join base d) ''branches'') = Inr cds \<and>
         cd \<in> set cds \<and>
         e_isdir env (path_join (path_join (path_join base d) ''branches'') cd)}) \<and>
   get_catchment_dirs example_env ''/root'' = Inr [''/root/12345678/branches/unitA''] \<and>
   get_catchment_dirs example_env ''s3://bucket/root'' =
     Inr [''s3://bucket/root/12345678/branches/unitA'']"
proof (intro conjI impI)
  assume "is_s3_path base \<and> list_s3_objects env base = Inr objects"
  then show "\<exists>r. get_catchment_dirs env base = Inr r \<and> distinct r \<and>
         set r = {''s3://'' @ fst (parse_s3_path base) @ ''/'' @
                    join_sep ''/'' (take (i + 3) (split_sep CHR ''/'' obj)) | obj i.
            obj \<in> set objects \<and> i + 2 < length (split_sep CHR ''/'' obj) \<and>
            isdigit (split_sep CHR ''/'' obj ! i) \<and>
            length (split_sep CHR ''/'' obj ! i) = 8 \<and>
            split_sep CHR ''/'' obj ! (i + 1) = ''branches''}"
    using remote_dirs by blast
next
  show "(key_catchment_paths key \<noteq> []) = spec_qualifies (split_sep CHR ''/'' key)"
    by (rule key_catchment_paths_spec)
next
  assume a: "\<not> is_s3_path base \<and> e_listdir env base = Inr ds \<and>
    get_catchment_dirs env base = Inr r'"
  then have "branch_dirs env base ds = Inr r'" by (auto simp: get_catchment_dirs_def)
  then show "set r' = {path_join (path_join (path_join base d) ''branches'') cd | d cd cds.
         d \<in> set ds \<and> e_isdir env (path_join base d) \<and> isdigit d \<and> length d = 8 \<and>
         e_isdir env (path_join (path_join base d) ''branches'') \<and>
         e_listdir env (path_join (path_join base d) ''branches'') = Inr cds \<and>
         cd \<in> set cds \<and>
         e_isdir env (path_join (path_join (path_join base d) ''branches'') cd)}"
    by (rule set_branch_dirs)
next
  show "get_catchment_dirs example_env ''/root'' = Inr [''/root/12345678/branches/unitA'']"
    using example_both by blast
next
  show "get_catchment_dirs example_env ''s3://bucket/root'' =
     Inr [''s3://bucket/root/12345678/branches/unitA'']"
    using example_both by blast
qed

theorem C4_discovery_by_backend_witness:
  "(\<exists>r. get_catchment_dirs example_env ''s3://bucket/root'' = Inr r \<and> distinct r \<and>
      set r = {''s3://'' @ fst (parse_s3_path ''s3://bucket/root'') @ ''/'' @
                 join_sep ''/'' (take (i + 3) (split_sep CHR ''/'' obj)) | obj i.
         obj \<in> set [''root/12345678/branches/unitA/gw_catchments_0.gpkg'',
                     ''root/12345678/branches/unitA/rem_zeroed_0.tif'',
                     ''root/12345678/nope/unitB/gw_catchments_1.gpkg''] \<and>
         i + 2 < length (split_sep CHR ''/'' obj) \<and>
         isdigit (split_sep CHR ''/'' obj ! i) \<and>
         length (split_sep CHR ''/'' obj ! i) = 8 \<and>
         split_sep CHR ''/'' obj ! (i + 1) = ''branches''}) \<and>
   set [''/root/12345678/branches/unitA''] =
     {path_join (path_join (path_join ''/root'' d) ''branches'') cd | d cd cds.
        d \<in> set [''12345678''] \<and> e_isdir example_env (path_join ''/root'' d) \<and>
        isdigit d \<and> length d = 8 \<and>
        e_isdir example_env (path_join (path_join ''/root'' d) ''branches'') \<and>
        e_listdir example_env (path_join (path_join ''/root'' d) ''branches'') = Inr cds \<and>
        cd \<in> set cds \<and>
        e_isdir example_env (path_join (path_join (path_join ''/root'' d) ''branches'') cd)}"
proof -
  have r1: "is_s3_path ''s3://bucket/root''" by code_simp
  have r2: "list_s3_objects example_env ''s3://bucket/root'' =
      Inr [''root/12345678/branches/unitA/gw_catchments_0.gpkg'',
           ''root/12345678/branches/unitA/rem_zeroed_0.tif'',
           ''root/12345678/nope/unitB/gw_catchments_1.gpkg'']"
    by code_simp
  have l1: "\<not> is_s3_path ''/root''" by code_simp
  have l2: "e_listdir example_env ''/root'' = Inr [''12345678'']" by code_simp
  have l3: "get_catchment_dirs example_env ''/root'' = Inr [''/root/12345678/branches/unitA'']"
    by code_simp
  from C4_discovery_by_backend[of "''s3://bucket/root''" example_env
         "[''root/12345678/branches/unitA/gw_catchments_0.gpkg'',
           ''root/12345678/branches/unitA/rem_zeroed_0.tif'',
           ''root/12345678/nope/unitB/gw_catchments_1.gpkg'']"] r1 r2
  have a: "\<exists>r. get_catchment_dirs example_env ''s3://bucket/root'' = Inr r \<and> distinct r \<and>
      set r = {''s3://'' @ fst (parse_s3_path ''s3://bucket/root'') @ ''/'' @
                 join_sep ''/'' (take (i + 3) (split_sep CHR ''/'' obj)) | obj i.
         obj \<in> set [''root/12345678/branches/unitA/gw_catchments_0.gpkg'',
                     ''root/12345678/branches/unitA/rem_zeroed_0.tif'',
                     ''root/12345678/nope/unitB/gw_catchments_1.gpkg''] \<and>
         i + 2 < length (split_sep CHR ''/'' obj) \<and>
         isdigit (split_sep CHR ''/'' obj ! i) \<and>
         length (split_sep CHR ''/'' obj ! i) = 8 \<and>
         split_sep CHR ''/'' obj ! (i + 1) = ''branches''}"
    by blast
  from C4_discovery_by_backend[of "''/root''" example_env _ _ "[''12345678'']"
         "[''/root/12345678/branches/unitA'']"] l1 l2 l3
  have b: "set [''/root/12345678/branches/unitA''] =
     {path_join (path_join (path_join ''/root'' d) ''branches'') cd | d cd cds.
        d \<in> set [''12345678''] \<and> e_isdir example_env (path_join ''/root'' d) \<and>
        isdigit d \<and> length d = 8 \<and>
        e_isdir example_env (path_join (path_join ''/root'' d) ''branches'') \<and>
        e_listdir example_env (path_join (path_join ''/root'' d) ''branches'') = Inr cds \<and>
        cd \<in> set cds \<and>
        e_isdir example_env (path_join (path_join (path_join ''/root'' d) ''branches'') cd)}"
    by blast
  from a b show ?thesis by (rule conjI)
qed

section \<open>Identity\<close>

text \<open>
  C5. \<open>generate_deterministic_uuid\<close> returns the version-5 identifier of its input under
  the namespace \<open>NAMESPACE_DNS\<close>, \<open>_generate_uuid\<close> returns the same value, and neither
  depends on the loader's fields or on any collaborator other than \<open>uuid5\<close> itself: two
  runs with different file systems, databases and versions give the same identifier for
  the same string.
\<close>

theorem C5_identity_depends_on_input_only:
  "generate_deterministic_uuid self env s = e_uuid5 env NAMESPACE_DNS s \<and>
   generate_uuid self env s = generate_deterministic_uuid self env s \<and>
   (e_uuid5 env' = e_uuid5 env \<longrightarrow>
      generate_deterministic_uuid self' env' s = generate_deterministic_uuid self env s \<and>
      generate_uuid self' env' s = generate_uuid self env s)"
  by (simp add: generate_deterministic_uuid_def generate_uuid_def)

theorem C5_identity_depends_on_input_only_witness:
  "e_uuid5 nested_env = e_uuid5 demo_env \<and>
   generate_deterministic_uuid (demo_loader\<lparr>hand_version_id := ''v4.0''\<rparr>) nested_env
     ''POLYGON ((0 0, 1 0, 1 1, 0 0))'' =
   generate_deterministic_uuid demo_loader demo_env ''POLYGON ((0 0, 1 0, 1 1, 0 0))'' \<and>
   generate_uuid (demo_loader\<lparr>hand_version_id := ''v4.0''\<rparr>) nested_env
     ''POLYGON ((0 0, 1 0, 1 1, 0 0))'' =
   generate_uuid demo_loader demo_env ''POLYGON ((0 0, 1 0, 1 1, 0 0))''"
proof -
  have same: "e_uuid5 nested_env = e_uuid5 demo_env" by (simp add: nested_env_def)
  from C5_identity_depends_on_input_only[of demo_loader demo_env
         "''POLYGON ((0 0, 1 0, 1 1, 0 0))''" nested_env
         "demo_loader\<lparr>hand_version_id := ''v4.0''\<rparr>"] same
  show ?thesis by blast
qed

section \<open>The handler of the batch loop\<close>

text \<open>
  The handler reads \<open>catchment_id\<close>, which the failing iteration has assigned only if
  \<open>load_catchment_geometry\<close> returned. When it raised, the variable is unbound in the
  first iteration, and otherwise holds what an earlier iteration left in it.
\<close>

lemma geometry_failure_with_unbound_id:
  assumes "load_catchment_geometry self env dir d = (l, Inl e)"
  shows "process_catchments self env idx n (dir # rest) (d, Unbound) =
     (Processing_catchment idx n dir # l @ [Error_processing_catchment dir e],
      d, Unbound, Some (UnboundLocalError ''catchment_id''))"
  using assms by (simp add: process_catchment_def catchment_transaction_def)

lemma geometry_failure_with_stale_id:
  assumes "load_catchment_geometry self env dir d = (l, Inl e)"
    and "cleanup_catchment self env (Some cid) d = (lc, Inr d')"
  shows "process_catchment self env idx n dir (d, Bound (Some cid)) =
     (Processing_catchment idx n dir # l @ [Error_processing_catchment dir e, Cleaning_up cid],
      purge self cid d, Bound (Some cid), None)"
  using assms cleanup_catchment_Some[OF assms(2)] cleanup_catchment_msgs[OF assms(2)]
  by (simp add: process_catchment_def catchment_transaction_def)

text \<open>
  C2 on the code: a second run over the same tree. The Catchments row of unit 0 is
  already present, its insert is rejected, the handler raises for the unbound variable,
  and the five remaining units are never attempted.
\<close>

theorem C2_first_unit_failure_aborts_batch:
  "load_hand_data demo_loader demo_env ''/hand'' demo_db_rerun =
     ([Found_catchments 6,
       Processing_catchment 1 6 ''/hand/12345678/branches/0'',
       Loading_catchment_geometry,
       Error_processing_catchment ''/hand/12345678/branches/0''
         (DatabaseError ''statement rejected'')],
      demo_db_rerun, Some (UnboundLocalError ''catchment_id''))"
  by code_simp

text \<open>
  C3 on the code: the Catchments row of unit 1 is already present. Unit 0 is loaded and
  committed (one Catchments row, two Hydrotables rows, one HAND_REM_Rasters row); the
  insert of unit 1 is rejected and the cleanup pass runs with the identifier of unit 0,
  whose committed rows are gone at the end of the run, while the rows of the failed
  unit 1 stay.
\<close>

theorem C3_cleanup_purges_previous_catchment:
  "visible_rows demo_loader ''uuid5:POLYGON ((0 0, 1 0, 1 1, 0 0))''
     (fst (snd (process_catchments demo_loader demo_env 1 6 [''/hand/12345678/branches/0'']
        (demo_db1, Unbound)))) = (1, 2, 1) \<and>
   take 10 (fst (load_hand_data demo_loader demo_env ''/hand'' demo_db1)) =
     [Found_catchments 6,
      Processing_catchment 1 6 ''/hand/12345678/branches/0'',
      Loading_catchment_geometry, Loading_hydrotables, Loading_REM_rasters,
      Loading_catchment_rasters,
      Processing_catchment 2 6 ''/hand/12345678/branches/1'',
      Loading_catchment_geometry,
      Error_processing_catchment ''/hand/12345678/branches/1''
        (DatabaseError ''statement rejected''),
      Cleaning_up ''uuid5:POLYGON ((0 0, 1 0, 1 1, 0 0))''] \<and>
   snd (snd (load_hand_data demo_loader demo_env ''/hand'' demo_db1)) = None \<and>
   visible_rows demo_loader ''uuid5:POLYGON ((0 0, 1 0, 1 1, 0 0))''
     (fst (snd (load_hand_data demo_loader demo_env ''/hand'' demo_db1))) = (0, 0, 0) \<and>
   visible_rows demo_loader ''uuid5:POLYGON ((2 2, 3 2, 3 3, 2 2))''
     (fst (snd (load_hand_data demo_loader demo_env ''/hand'' demo_db1))) = (1, 0, 0)"
  by code_simp

section \<open>The river-network feature loader\<close>

text \<open>
  The loop by itself inserts a feature once and counts the second attempt as dropped,
  but \<open>load_nwm_features\<close> never reaches it: the frame that \<open>temp_load_gpkg\<close> returns
  is not a context manager.
\<close>

lemma nwm_features_loop_suppresses_duplicate:
  "nwm_features_loop demo_loader nwm_env [nwm_stream, nwm_stream] 0 empty_db =
     Inr (1, empty_db\<lparr>NWM_Features := [nwm_feature_row]\<rparr>)"
  by code_simp

lemma load_nwm_features_never_commits:
  "\<exists>l e. load_nwm_features self env gpkg_path d = (l, d, Some e)"
  by (simp add: load_nwm_features_def with_as_def split: sum.splits)

text \<open>
  C8 on the code: a file that holds the same feature twice. \<open>load_nwm_features\<close> raises
  at the \<open>with\<close> statement, inserts no row and prints no count.
\<close>

theorem C8_load_nwm_features_raises:
  "load_nwm_features demo_loader nwm_env ''/general/nwm_flows.gpkg'' empty_db =
     ([Loading_NWM_features], empty_db,
      Some (TypeError ''object does not support the context manager protocol''))"
  by code_simp

end
